theory Spec2Isabelle
  imports Main "HOL-Library.Word"
begin

section \<open>Python values used by the platform integration layer\<close>

text \<open>
  A Python \<open>str\<close> is a sequence of code points, so it is modelled as a list of
  natural numbers (each below \<open>0x110000\<close> in a real string). \<open>py\<close> turns an
  Isabelle literal into such a string.
\<close>

type_synonym pystr = "nat list"

definition py :: "string \<Rightarrow> pystr" where
  "py s = map of_char s"

text \<open>
  What \<open>json.loads\<close> can return, and so what \<open>SecretStore.token_dictionary\<close>
  can hold: the attribute is annotated \<open>Dict[str, str]\<close>, but \<open>_init_windows\<close> and
  \<open>_init_linux\<close> assign the decoded value unchecked. A dictionary is an association
  list in insertion order; a number is kept as its lexeme, since no operation of the
  store computes with one.
\<close>

datatype json =
    JNull
  | JBool bool
  | JNum pystr
  | JStr pystr
  | JArr "json list"
  | JObj "(pystr \<times> json) list"

datatype error =
    KeyError pystr
  | TypeError
  | AttributeError
  | JSONDecodeError
  | UnicodeDecodeError
  | UnicodeEncodeError
  | ValueError
  | GLibError

definition then_do :: "error + 'a \<Rightarrow> ('a \<Rightarrow> error + 'b) \<Rightarrow> error + 'b" where
  "then_do r f = (case r of Inl e \<Rightarrow> Inl e | Inr x \<Rightarrow> f x)"

text \<open>\<open>k in s\<close> for two strings: \<open>k\<close> occurs in \<open>s\<close> as a contiguous slice.\<close>

fun py_substr :: "pystr \<Rightarrow> pystr \<Rightarrow> bool" where
  "py_substr k [] = (k = [])"
| "py_substr k (c # cs) = (take (length k) (c # cs) = k \<or> py_substr k cs)"

text \<open>
  \<open>key in container\<close>: membership among the keys of a dict, among the elements of a
  list, as a slice of a string; every other JSON value is not iterable.
\<close>

fun py_contains :: "json \<Rightarrow> pystr \<Rightarrow> error + bool" where
  "py_contains (JObj d) k = Inr (map_of d k \<noteq> None)"
| "py_contains (JArr xs) k = Inr (JStr k \<in> set xs)"
| "py_contains (JStr s) k = Inr (py_substr k s)"
| "py_contains _ k = Inl TypeError"

text \<open>\<open>all(p(key) for key in keys)\<close>: stops at the first false test, or at the first raise.\<close>

fun py_all :: "('a \<Rightarrow> error + bool) \<Rightarrow> 'a list \<Rightarrow> error + bool" where
  "py_all p [] = Inr True"
| "py_all p (k # ks) =
     (case p k of
        Inl e \<Rightarrow> Inl e
      | Inr b \<Rightarrow> if b then py_all p ks else Inr False)"

text \<open>\<open>container[key]\<close> with a string key: only a dict accepts it.\<close>

fun py_getitem :: "json \<Rightarrow> pystr \<Rightarrow> error + json" where
  "py_getitem (JObj d) k = (case map_of d k of None \<Rightarrow> Inl (KeyError k) | Some v \<Rightarrow> Inr v)"
| "py_getitem _ k = Inl TypeError"

section \<open>The JSON text of a bundle (json.dumps, json.loads)\<close>

text \<open>
  \<open>save\<close> serialises the bundle with \<open>json.dumps\<close> and the constructor decodes the
  stored text with \<open>json.loads\<close>, both with their default arguments. The two library
  functions are modelled on code points: \<open>ensure_ascii\<close> escaping on the way out, the
  strict scanner on the way in.
\<close>

subsection \<open>json.dumps\<close>

definition hex_digit :: "nat \<Rightarrow> nat" where
  "hex_digit d = (if d < 10 then 48 + d else 87 + d)"

definition hex4 :: "nat \<Rightarrow> pystr" where
  "hex4 n = [hex_digit (n div 4096 mod 16), hex_digit (n div 256 mod 16),
             hex_digit (n div 16 mod 16), hex_digit (n mod 16)]"

definition is_high_surrogate :: "nat \<Rightarrow> bool" where
  "is_high_surrogate c = (0xD800 \<le> c \<and> c \<le> 0xDBFF)"

definition is_low_surrogate :: "nat \<Rightarrow> bool" where
  "is_low_surrogate c = (0xDC00 \<le> c \<and> c \<le> 0xDFFF)"

text \<open>
  One character of a string: the short escapes, printable ASCII as it is, every other
  code point of the basic plane as \<open>\uXXXX\<close>, and a code point above it as the two
  \<open>\uXXXX\<close> escapes of its surrogate pair.
\<close>

definition escape_char :: "nat \<Rightarrow> pystr" where
  "escape_char c =
     (if c = 92 then [92, 92]
      else if c = 34 then [92, 34]
      else if c = 8 then [92, 98]
      else if c = 12 then [92, 102]
      else if c = 10 then [92, 110]
      else if c = 13 then [92, 114]
      else if c = 9 then [92, 116]
      else if 32 \<le> c \<and> c \<le> 126 then [c]
      else if c < 0x10000 then [92, 117] @ hex4 c
      else (let n = c - 0x10000;
                s1 = 0xD800 + (n div 1024) mod 1024;
                s2 = 0xDC00 + n mod 1024
            in [92, 117] @ hex4 s1 @ [92, 117] @ hex4 s2))"

definition escape_str :: "pystr \<Rightarrow> pystr" where
  "escape_str s = concat (map escape_char s)"

definition encode_basestring_ascii :: "pystr \<Rightarrow> pystr" where
  "encode_basestring_ascii s = [34] @ escape_str s @ [34]"

text \<open>Items are separated by \<open>", "\<close>, a key from its value by \<open>": "\<close>.\<close>

fun json_dumps :: "json \<Rightarrow> pystr"
  and dumps_items :: "json list \<Rightarrow> pystr"
  and dumps_pairs :: "(pystr \<times> json) list \<Rightarrow> pystr" where
  "json_dumps JNull = py ''null''"
| "json_dumps (JBool b) = (if b then py ''true'' else py ''false'')"
| "json_dumps (JNum lexeme) = lexeme"
| "json_dumps (JStr s) = encode_basestring_ascii s"
| "json_dumps (JArr xs) = [91] @ dumps_items xs @ [93]"
| "json_dumps (JObj kvs) = [123] @ dumps_pairs kvs @ [125]"
| "dumps_items [] = []"
| "dumps_items [x] = json_dumps x"
| "dumps_items (x # y # ys) = json_dumps x @ [44, 32] @ dumps_items (y # ys)"
| "dumps_pairs [] = []"
| "dumps_pairs [(k, v)] = encode_basestring_ascii k @ [58, 32] @ json_dumps v"
| "dumps_pairs ((k, v) # kv # kvs) =
     encode_basestring_ascii k @ [58, 32] @ json_dumps v @ [44, 32] @ dumps_pairs (kv # kvs)"

subsection \<open>json.loads\<close>

definition hex_value :: "nat \<Rightarrow> nat option" where
  "hex_value c =
     (if 48 \<le> c \<and> c \<le> 57 then Some (c - 48)
      else if 97 \<le> c \<and> c \<le> 102 then Some (c - 87)
      else if 65 \<le> c \<and> c \<le> 70 then Some (c - 55)
      else None)"

fun decode_uXXXX :: "pystr \<Rightarrow> nat option" where
  "decode_uXXXX (a # b # c # d # rest) =
     (case (hex_value a, hex_value b, hex_value c, hex_value d) of
        (Some x, Some y, Some z, Some w) \<Rightarrow> Some (4096 * x + 256 * y + 16 * z + w)
      | _ \<Rightarrow> None)"
| "decode_uXXXX _ = None"

definition unescape :: "nat \<Rightarrow> nat option" where
  "unescape e =
     (if e = 34 then Some 34
      else if e = 92 then Some 92
      else if e = 47 then Some 47
      else if e = 98 then Some 8
      else if e = 102 then Some 12
      else if e = 110 then Some 10
      else if e = 114 then Some 13
      else if e = 116 then Some 9
      else None)"

definition emit :: "nat \<Rightarrow> (pystr \<times> pystr) option \<Rightarrow> (pystr \<times> pystr) option" where
  "emit c r = map_option (\<lambda>(s, rest). (c # s, rest)) r"

text \<open>
  \<open>scanstring\<close> reads a string literal from just after its opening quote and returns
  the decoded string with the text after the closing quote. A \<open>\uXXXX\<close> escape of a
  high surrogate that is followed by the escape of a low surrogate is read as one code
  point. \<open>None\<close> stands for \<open>JSONDecodeError\<close>.
\<close>

function scanstring :: "pystr \<Rightarrow> (pystr \<times> pystr) option" where
  "scanstring [] = None"
| "scanstring (c # cs) =
     (if c = 34 then Some ([], cs)
      else if c = 92 then
        (case cs of
           [] \<Rightarrow> None
         | e # es \<Rightarrow>
             if e = 117 then
               (case decode_uXXXX es of
                  None \<Rightarrow> None
                | Some uni \<Rightarrow>
                    if is_high_surrogate uni \<and> take 2 (drop 4 es) = [92, 117] then
                      (case decode_uXXXX (drop 6 es) of
                         None \<Rightarrow> None
                       | Some uni2 \<Rightarrow>
                           if is_low_surrogate uni2
                           then emit (0x10000 + ((uni - 0xD800) * 1024 + (uni2 - 0xDC00)))
                                  (scanstring (drop 10 es))
                           else emit uni (scanstring (drop 4 es)))
                    else emit uni (scanstring (drop 4 es)))
             else (case unescape e of
                     None \<Rightarrow> None
                   | Some ch \<Rightarrow> emit ch (scanstring es)))
      else if c < 32 then None
      else emit c (scanstring cs))"
  by pat_completeness auto
termination
  by (relation "measure length") auto

definition is_ws :: "nat \<Rightarrow> bool" where
  "is_ws c = (c = 32 \<or> c = 9 \<or> c = 10 \<or> c = 13)"

definition skip_ws :: "pystr \<Rightarrow> pystr" where
  "skip_ws cs = dropWhile is_ws cs"

definition is_digit :: "nat \<Rightarrow> bool" where
  "is_digit c = (48 \<le> c \<and> c \<le> 57)"

definition starts_with :: "pystr \<Rightarrow> pystr \<Rightarrow> bool" where
  "starts_with lit cs = (take (length lit) cs = lit)"

text \<open>
  A number is matched as \<open>-?(0|[1-9][0-9]*)(\.[0-9]+)?([eE][-+]?[0-9]+)?\<close>, the
  longest way, and kept as the matched text.
\<close>

definition match_int :: "pystr \<Rightarrow> (pystr \<times> pystr) option" where
  "match_int cs =
     (case cs of
        [] \<Rightarrow> None
      | d # r \<Rightarrow>
          if d = 48 then Some ([48], r)
          else if 49 \<le> d \<and> d \<le> 57 then Some (d # takeWhile is_digit r, dropWhile is_digit r)
          else None)"

definition match_frac :: "pystr \<Rightarrow> pystr \<times> pystr" where
  "match_frac cs =
     (case cs of
        p # d # r \<Rightarrow>
          if p = 46 \<and> is_digit d then (p # d # takeWhile is_digit r, dropWhile is_digit r)
          else ([], cs)
      | _ \<Rightarrow> ([], cs))"

definition match_exp :: "pystr \<Rightarrow> pystr \<times> pystr" where
  "match_exp cs =
     (case cs of
        e # s # r \<Rightarrow>
          if e = 101 \<or> e = 69 then
            (if is_digit s then (e # s # takeWhile is_digit r, dropWhile is_digit r)
             else if s = 45 \<or> s = 43 then
               (case r of
                  d # r' \<Rightarrow>
                    if is_digit d then (e # s # d # takeWhile is_digit r', dropWhile is_digit r')
                    else ([], cs)
                | [] \<Rightarrow> ([], cs))
             else ([], cs))
          else ([], cs)
      | _ \<Rightarrow> ([], cs))"

definition match_number :: "pystr \<Rightarrow> (pystr \<times> pystr) option" where
  "match_number cs =
     (let (sign, r0) = (case cs of [] \<Rightarrow> ([], cs) | c # r \<Rightarrow> if c = 45 then ([c], r) else ([], cs))
      in case match_int r0 of
           None \<Rightarrow> None
         | Some (i, r1) \<Rightarrow>
             let (f, r2) = match_frac r1; (e, r3) = match_exp r2
             in Some (sign @ i @ f @ e, r3))"

definition scan_constant :: "pystr \<Rightarrow> (json \<times> pystr) option" where
  "scan_constant cs =
     (if starts_with (py ''null'') cs then Some (JNull, drop 4 cs)
      else if starts_with (py ''true'') cs then Some (JBool True, drop 4 cs)
      else if starts_with (py ''false'') cs then Some (JBool False, drop 5 cs)
      else case match_number cs of
             Some (lexeme, r) \<Rightarrow> Some (JNum lexeme, r)
           | None \<Rightarrow>
               if starts_with (py ''NaN'') cs then Some (JNum (py ''NaN''), drop 3 cs)
               else if starts_with (py ''Infinity'') cs then Some (JNum (py ''Infinity''), drop 8 cs)
               else if starts_with (py ''-Infinity'') cs then Some (JNum (py ''-Infinity''), drop 9 cs)
               else None)"

text \<open>\<open>dict(pairs)\<close>: a repeated key keeps its first position and takes the last value.\<close>

fun dict_set :: "(pystr \<times> json) list \<Rightarrow> pystr \<Rightarrow> json \<Rightarrow> (pystr \<times> json) list" where
  "dict_set [] k v = [(k, v)]"
| "dict_set ((k', v') # d) k v = (if k' = k then (k, v) # d else (k', v') # dict_set d k v)"

definition py_dict :: "(pystr \<times> json) list \<Rightarrow> (pystr \<times> json) list" where
  "py_dict pairs = foldl (\<lambda>d (k, v). dict_set d k v) [] pairs"

text \<open>
  The scanner for values, for the items of a non-empty array (from the start of an
  item) and for the members of a non-empty object (from just after the opening quote of
  a key). The first argument bounds the depth of the calls, one level for each nesting
  and each further item; \<open>json_loads\<close> starts with one more than the length of the
  text. (CPython has a bound of its own: on very deep nesting it raises
  \<open>RecursionError\<close>, which the store treats like any other decoding failure.)
\<close>

fun scan_once :: "nat \<Rightarrow> pystr \<Rightarrow> (json \<times> pystr) option"
  and scan_array :: "nat \<Rightarrow> pystr \<Rightarrow> (json list \<times> pystr) option"
  and scan_object :: "nat \<Rightarrow> pystr \<Rightarrow> ((pystr \<times> json) list \<times> pystr) option" where
  "scan_once 0 cs = None"
| "scan_once (Suc n) cs =
     (case cs of
        [] \<Rightarrow> None
      | c # r \<Rightarrow>
          if c = 34 then map_option (\<lambda>(s, r'). (JStr s, r')) (scanstring r)
          else if c = 123 then
            (case skip_ws r of
               [] \<Rightarrow> None
             | d # r' \<Rightarrow>
                 if d = 125 then Some (JObj [], r')
                 else if d = 34
                 then map_option (\<lambda>(pairs, r''). (JObj (py_dict pairs), r'')) (scan_object n r')
                 else None)
          else if c = 91 then
            (case skip_ws r of
               [] \<Rightarrow> None
             | d # r' \<Rightarrow>
                 if d = 93 then Some (JArr [], r')
                 else map_option (\<lambda>(vs, r''). (JArr vs, r'')) (scan_array n (d # r')))
          else scan_constant cs)"
| "scan_array 0 cs = None"
| "scan_array (Suc n) cs =
     (case scan_once n cs of
        None \<Rightarrow> None
      | Some (v, r) \<Rightarrow>
          (case skip_ws r of
             [] \<Rightarrow> None
           | d # r' \<Rightarrow>
               if d = 93 then Some ([v], r')
               else if d = 44
               then map_option (\<lambda>(vs, r''). (v # vs, r'')) (scan_array n (skip_ws r'))
               else None))"
| "scan_object 0 cs = None"
| "scan_object (Suc n) cs =
     (case scanstring cs of
        None \<Rightarrow> None
      | Some (key, r) \<Rightarrow>
          (case skip_ws r of
             [] \<Rightarrow> None
           | d # r1 \<Rightarrow>
               if d \<noteq> 58 then None
               else
                 (case scan_once n (skip_ws r1) of
                    None \<Rightarrow> None
                  | Some (v, r2) \<Rightarrow>
                      (case skip_ws r2 of
                         [] \<Rightarrow> None
                       | e # r3 \<Rightarrow>
                           if e = 125 then Some ([(key, v)], r3)
                           else if e = 44 then
                             (case skip_ws r3 of
                                [] \<Rightarrow> None
                              | q # r4 \<Rightarrow>
                                  if q = 34
                                  then map_option (\<lambda>(pairs, r''). ((key, v) # pairs, r''))
                                         (scan_object n r4)
                                  else None)
                           else None))))"

definition json_loads :: "pystr \<Rightarrow> error + json" where
  "json_loads s =
     (case scan_once (Suc (length s)) (skip_ws s) of
        None \<Rightarrow> Inl JSONDecodeError
      | Some (v, r) \<Rightarrow> if skip_ws r = [] then Inr v else Inl JSONDecodeError)"

text \<open>
  Strings that a round trip through \<open>json.dumps\<close> and \<open>json.loads\<close> gives back
  unchanged: every element is a code point, and no high surrogate stands immediately
  before a low surrogate (the scanner would join the two).
\<close>

definition valid_str :: "pystr \<Rightarrow> bool" where
  "valid_str s = list_all (\<lambda>c. c < 0x110000) s"

fun pair_free :: "pystr \<Rightarrow> bool" where
  "pair_free (c # d # cs) = (\<not> (is_high_surrogate c \<and> is_low_surrogate d) \<and> pair_free (d # cs))"
| "pair_free _ = True"

definition well_formed :: "pystr \<Rightarrow> bool" where
  "well_formed s = (valid_str s \<and> pair_free s)"


section \<open>UTF-16LE (str.encode, bytes.decode)\<close>

type_synonym byte = "8 word"

definition unit_bytes :: "nat \<Rightarrow> byte list" where
  "unit_bytes u = [of_nat (u mod 256), of_nat (u div 256)]"

definition unit_of :: "byte \<Rightarrow> byte \<Rightarrow> nat" where
  "unit_of b0 b1 = unat b0 + 256 * unat b1"

text \<open>\<open>password.encode("utf-16-le")\<close>; a surrogate code point cannot be encoded.\<close>

fun utf_16_le_encode :: "pystr \<Rightarrow> error + byte list" where
  "utf_16_le_encode [] = Inr []"
| "utf_16_le_encode (c # cs) =
     (if is_high_surrogate c \<or> is_low_surrogate c then Inl UnicodeEncodeError
      else case utf_16_le_encode cs of
             Inl e \<Rightarrow> Inl e
           | Inr bs \<Rightarrow>
               if c < 0x10000 then Inr (unit_bytes c @ bs)
               else Inr (unit_bytes (0xD800 + ((c - 0x10000) div 1024) mod 1024) @
                         unit_bytes (0xDC00 + (c - 0x10000) mod 1024) @ bs))"

definition put :: "nat \<Rightarrow> error + pystr \<Rightarrow> error + pystr" where
  "put c r = (case r of Inl e \<Rightarrow> Inl e | Inr s \<Rightarrow> Inr (c # s))"

text \<open>
  \<open>password_bytes.decode("utf-16-le")\<close>; an odd number of bytes and an unpaired
  surrogate are decoding errors.
\<close>

fun utf_16_le_decode :: "byte list \<Rightarrow> error + pystr" where
  "utf_16_le_decode [] = Inr []"
| "utf_16_le_decode [b] = Inl UnicodeDecodeError"
| "utf_16_le_decode (b0 # b1 # bs) =
     (if is_high_surrogate (unit_of b0 b1) then
        (case bs of
           b2 # b3 # bs' \<Rightarrow>
             if is_low_surrogate (unit_of b2 b3)
             then put (0x10000 + ((unit_of b0 b1 - 0xD800) * 1024 + (unit_of b2 b3 - 0xDC00)))
                    (utf_16_le_decode bs')
             else Inl UnicodeDecodeError
         | _ \<Rightarrow> Inl UnicodeDecodeError)
      else if is_low_surrogate (unit_of b0 b1) then Inl UnicodeDecodeError
      else put (unit_of b0 b1) (utf_16_le_decode bs))"

definition ascii :: "pystr \<Rightarrow> bool" where
  "ascii s = list_all (\<lambda>c. c < 128) s"


section \<open>The two secret backends\<close>

text \<open>
  The native credential vault, as far as the store sees it: the blob kept under the
  target name \<open>high-tide-login\<close>, if any, and the largest blob the vault accepts
  (\<open>CRED_MAX_CREDENTIAL_BLOB_SIZE\<close>, \<open>5 * 512\<close> bytes, in the Windows headers).
  \<open>CredReadW\<close> and \<open>CredDeleteW\<close> return false when there is no such credential,
  \<open>CredWriteW\<close> returns false when the vault refuses the blob.
\<close>

record vault =
  cred_blob :: "byte list option"
  blob_limit :: nat

text \<open>
  The blob field of the \<open>CREDENTIAL\<close> structure is a \<open>POINTER(c_byte)\<close>, so the
  slice \<open>cred.CredentialBlob[:n]\<close> is a list of signed values from \<open>-128\<close> to
  \<open>127\<close>, and \<open>bytes(...)\<close> of a list raises \<open>ValueError\<close> unless every
  element is in \<open>range(0, 256)\<close>.
\<close>

definition c_byte :: "byte \<Rightarrow> int" where
  "c_byte b = (if unat b < 128 then int (unat b) else int (unat b) - 256)"

definition py_bytes :: "int list \<Rightarrow> error + byte list" where
  "py_bytes xs =
     (if list_all (\<lambda>i. 0 \<le> i \<and> i < 256) xs then Inr (map of_int xs) else Inl ValueError)"

definition windows_read_credential :: "vault \<Rightarrow> error + pystr option" where
  "windows_read_credential v =
     (case cred_blob v of
        None \<Rightarrow> Inr None
      | Some blob \<Rightarrow>
          if length blob > 0
          then then_do (py_bytes (map c_byte blob)) (\<lambda>password_bytes.
               then_do (utf_16_le_decode password_bytes) (\<lambda>s. Inr (Some s)))
          else Inr None)"

definition windows_write_credential :: "pystr \<Rightarrow> vault \<Rightarrow> error + bool \<times> vault" where
  "windows_write_credential password v =
     then_do (utf_16_le_encode password) (\<lambda>password_bytes.
       if length password_bytes \<le> blob_limit v
       then Inr (True, v\<lparr>cred_blob := Some password_bytes\<rparr>)
       else Inr (False, v))"


text \<open>
  The secret service: whether the service answers at all (every call raises
  \<open>GLib.Error\<close> when it does not), whether the default collection is locked, and the
  password stored under the schema of the application, if any. Looking a password up
  and storing one ask for an unlock themselves when they need it, so the lock does not
  decide what they return; clearing removes unlocked items only, so on a locked
  collection it removes nothing and returns false.
\<close>

record keyring =
  reachable :: bool
  locked :: bool
  item :: "pystr option"

text \<open>
  The block of \<open>_init_linux\<close> that gets the service and the default collection and
  asks for an unlock when the collection is locked.
\<close>

definition ensure_unlocked :: "keyring \<Rightarrow> error + keyring" where
  "ensure_unlocked k =
     (if \<not> reachable k then Inl GLibError
      else if locked k then Inr (k\<lparr>locked := False\<rparr>)
      else Inr k)"

definition password_lookup_sync :: "keyring \<Rightarrow> error + pystr option" where
  "password_lookup_sync k = (if reachable k then Inr (item k) else Inl GLibError)"

definition password_store_sync :: "pystr \<Rightarrow> keyring \<Rightarrow> error + keyring" where
  "password_store_sync password k =
     (if reachable k then Inr (k\<lparr>item := Some password\<rparr>) else Inl GLibError)"


text \<open>\<open>IS_WINDOWS\<close> chooses the backend once; a backend value carries that choice.\<close>

datatype backend = NativeVault vault | SecretService keyring


section \<open>SecretStore (secret\_storage.py)\<close>

record secret_store =
  token_dictionary :: json

definition required_keys :: "pystr list" where
  "required_keys = [py ''token-type'', py ''access-token'', py ''refresh-token'']"

definition has_credentials :: "secret_store \<Rightarrow> error + bool" where
  "has_credentials self = py_all (py_contains (token_dictionary self)) required_keys"

definition get :: "secret_store \<Rightarrow> error + (json \<times> json \<times> json)" where
  "get self =
     then_do (py_getitem (token_dictionary self) (py ''token-type'')) (\<lambda>token_type.
     then_do (py_getitem (token_dictionary self) (py ''access-token'')) (\<lambda>access_token.
     then_do (py_getitem (token_dictionary self) (py ''refresh-token'')) (\<lambda>refresh_token.
     Inr (token_type, access_token, refresh_token))))"

subsection \<open>Construction\<close>

definition empty_store :: secret_store where
  "empty_store = \<lparr>token_dictionary = JObj []\<rparr>"

text \<open>
  The guarded part both initialisers share:
  \<open>if password: json_data = json.loads(password); self.token_dictionary = json_data\<close>.
\<close>

definition load_password :: "pystr option \<Rightarrow> error + secret_store" where
  "load_password password =
     (case password of
        None \<Rightarrow> Inr empty_store
      | Some p \<Rightarrow>
          if p = [] then Inr empty_store
          else then_do (json_loads p) (\<lambda>json_data. Inr \<lparr>token_dictionary = json_data\<rparr>))"

text \<open>\<open>_init_windows\<close>: the read and the decoding are both inside the \<open>try\<close>.\<close>

definition init_windows :: "vault \<Rightarrow> secret_store" where
  "init_windows v =
     (case then_do (windows_read_credential v) load_password of
        Inl e \<Rightarrow> empty_store
      | Inr s \<Rightarrow> s)"

text \<open>
  \<open>_init_linux\<close>: the unlock block and \<open>password_lookup_sync\<close> come before the
  \<open>try\<close>, which covers the decoding only.
\<close>

definition init_linux :: "keyring \<Rightarrow> error + secret_store \<times> keyring" where
  "init_linux k =
     then_do (ensure_unlocked k) (\<lambda>k1.
     then_do (password_lookup_sync k1) (\<lambda>password.
       Inr (case load_password password of Inl e \<Rightarrow> empty_store | Inr s \<Rightarrow> s, k1)))"

text \<open>\<open>SecretStore(session)\<close>: the new store and the backend as the constructor leaves it.\<close>

definition SecretStore_init :: "backend \<Rightarrow> error + secret_store \<times> backend" where
  "SecretStore_init b =
     (case b of
        NativeVault v \<Rightarrow> Inr (init_windows v, NativeVault v)
      | SecretService k \<Rightarrow> then_do (init_linux k) (\<lambda>(s, k'). Inr (s, SecretService k')))"

subsection \<open>clear and save\<close>

text \<open>
  A method that mutates the store returns how it ended together with the store and
  the backend as it leaves them, also when it raises.
\<close>

datatype outcome = Returned | Raised error



text \<open>
  The session object \<open>save\<close> reads. The three tokens are annotated \<open>str\<close>;
  \<open>expiry_time\<close> is \<open>Any\<close> and goes through \<open>str()\<close>: it is \<open>None\<close>, a string, or
  another object, given by the text \<open>str()\<close> returns for it.
\<close>

datatype pyobj = PyNone | PyStr pystr | PyObject pystr

fun py_str :: "pyobj \<Rightarrow> pystr" where
  "py_str PyNone = py ''None''"
| "py_str (PyStr s) = s"
| "py_str (PyObject shown) = shown"

record session =
  token_type :: pystr
  access_token :: pystr
  refresh_token :: pystr
  expiry_time :: pyobj

definition bundle_of :: "session \<Rightarrow> json" where
  "bundle_of sess =
     JObj [(py ''token-type'', JStr (token_type sess)),
           (py ''access-token'', JStr (access_token sess)),
           (py ''refresh-token'', JStr (refresh_token sess)),
           (py ''expiry-time'', JStr (py_str (expiry_time sess)))]"

text \<open>
  \<open>save()\<close>. A write the vault refuses is logged and the call returns; an exception
  of the secret service is not caught.
\<close>

definition save :: "session \<Rightarrow> secret_store \<Rightarrow> backend \<Rightarrow> outcome \<times> secret_store \<times> backend" where
  "save sess self b =
     (let self' = self\<lparr>token_dictionary := bundle_of sess\<rparr>;
          json_data = json_dumps (token_dictionary self')
      in case b of
           NativeVault v \<Rightarrow>
             (case windows_write_credential json_data v of
                Inl e \<Rightarrow> (Raised e, self', b)
              | Inr (written, v') \<Rightarrow> (Returned, self', NativeVault v'))
         | SecretService k \<Rightarrow>
             (case password_store_sync json_data k of
                Inl e \<Rightarrow> (Raised e, self', b)
              | Inr k' \<Rightarrow> (Returned, self', SecretService k')))"


subsection \<open>Conditions on the backend\<close>

text \<open>
  The backend takes the write of a payload: the vault when the encoded blob is within
  its limit, the secret service when it answers.
\<close>

definition takes_write :: "backend \<Rightarrow> pystr \<Rightarrow> bool" where
  "takes_write b payload =
     (case b of
        NativeVault v \<Rightarrow>
          (case utf_16_le_encode payload of
             Inl e \<Rightarrow> False
           | Inr blob \<Rightarrow> length blob \<le> blob_limit v)
      | SecretService k \<Rightarrow> reachable k)"




section \<open>WindowsMediaControls (windows\_integration.py)\<close>

text \<open>
  The native objects the bridge holds references to: the transport controls of the
  media player (button flags, registered button listeners, playback status) and their
  display updater (type, music properties, thumbnail, number of \<open>update()\<close> calls).
\<close>

datatype playback_status = CLOSED | PLAYING | PAUSED

datatype playback_type = UNKNOWN | MUSIC

record transport_controls =
  is_enabled :: bool
  is_play_enabled :: bool
  is_pause_enabled :: bool
  is_next_enabled :: bool
  is_previous_enabled :: bool
  is_stop_enabled :: bool
  button_pressed_handlers :: "nat list"
  playback_status :: playback_status

record updater =
  updater_type :: playback_type
  music_title :: pystr
  music_artist :: pystr
  music_album_title :: pystr
  thumbnail :: "pystr option"
  updates :: nat

text \<open>
  The attributes of a \<open>WindowsMediaControls\<close> instance (a \<open>None\<close> reference is
  \<open>None\<close>), and the thumbnail workers \<open>_set_thumbnail_async\<close> has started.
\<close>

record media_controls =
  media_player :: bool
  smtc :: "transport_controls option"
  display_updater :: "updater option"
  initialized :: bool
  current_title :: pystr
  current_artist :: pystr
  current_album :: pystr
  button_pressed_token :: "nat option"
  thumbnail_workers :: "pystr list"

definition new_media_controls :: media_controls where
  "new_media_controls =
     \<lparr>media_player = False, smtc = None, display_updater = None, initialized = False,
      current_title = [], current_artist = [], current_album = [],
      button_pressed_token = None, thumbnail_workers = []\<rparr>"

definition fresh_controls :: transport_controls where
  "fresh_controls =
     \<lparr>is_enabled = False, is_play_enabled = False, is_pause_enabled = False,
      is_next_enabled = False, is_previous_enabled = False, is_stop_enabled = False,
      button_pressed_handlers = [], playback_status = CLOSED\<rparr>"

definition fresh_updater :: updater where
  "fresh_updater =
     \<lparr>updater_type = UNKNOWN, music_title = [], music_artist = [], music_album_title = [],
      thumbnail = None, updates = 0\<rparr>"

text \<open>
  Where the native setup of \<open>initialize()\<close> raises, if it does: at the imports, when
  the player is created, when its transport controls are read, when the button
  listener is registered, or when the display updater is read.
\<close>

datatype setup_fault =
  NoFault | ImportFault | PlayerFault | ControlsFault | ListenerFault | UpdaterFault

definition enabled_controls :: transport_controls where
  "enabled_controls =
     fresh_controls\<lparr>is_enabled := True, is_play_enabled := True, is_pause_enabled := True,
       is_next_enabled := True, is_previous_enabled := True, is_stop_enabled := True\<rparr>"

text \<open>
  \<open>initialize()\<close>. The result is what the call returns: \<open>Some b\<close> for the boolean
  \<open>b\<close>, \<open>None\<close> for Python's \<open>None\<close>. The \<open>except\<close> clause keeps every attribute
  assigned before the raise and sets \<open>_initialized\<close> to false; it has no \<open>return\<close>.
\<close>

definition initialize :: "bool \<Rightarrow> setup_fault \<Rightarrow> media_controls \<Rightarrow> bool option \<times> media_controls" where
  "initialize HAS_WINSDK fault self =
     (if \<not> HAS_WINSDK then (Some False, self)
      else if fault = ImportFault \<or> fault = PlayerFault then (None, self\<lparr>initialized := False\<rparr>)
      else let s1 = self\<lparr>media_player := True\<rparr> in
      if fault = ControlsFault then (None, s1\<lparr>initialized := False\<rparr>)
      else let s2 = s1\<lparr>smtc := Some enabled_controls\<rparr> in
      if fault = ListenerFault then (None, s2\<lparr>initialized := False\<rparr>)
      else let s3 = s2\<lparr>smtc := Some (enabled_controls\<lparr>button_pressed_handlers := [0]\<rparr>),
                        button_pressed_token := Some 0\<rparr> in
      if fault = UpdaterFault then (None, s3\<lparr>initialized := False\<rparr>)
      else (Some True,
            s3\<lparr>display_updater := Some (fresh_updater\<lparr>updater_type := MUSIC\<rparr>),
               initialized := True\<rparr>))"

text \<open>
  \<open>update_playback_status(is_playing)\<close>; \<open>raises\<close> says that the native call
  inside the \<open>try\<close> raises, which is logged and swallowed.
\<close>

definition update_playback_status :: "bool \<Rightarrow> bool \<Rightarrow> media_controls \<Rightarrow> media_controls" where
  "update_playback_status is_playing raises self =
     (if \<not> initialized self \<or> smtc self = None then self
      else if raises then self
      else self\<lparr>smtc := map_option
             (\<lambda>c. c\<lparr>playback_status := (if is_playing then PLAYING else PAUSED)\<rparr>) (smtc self)\<rparr>)"

text \<open>
  \<open>update_metadata(title, artist, album, thumbnail_path)\<close>; \<open>path_exists\<close> is
  \<open>os.path.exists\<close>, and the fifth parameter \<open>duration_ms\<close> is never read. The
  import inside the \<open>try\<close> comes before the three assignments, the native writes
  after them.
\<close>

datatype call_fault = Clean | ImportRaises | NativeRaises

definition update_metadata ::
  "pystr \<Rightarrow> pystr \<Rightarrow> pystr \<Rightarrow> pystr \<Rightarrow> (pystr \<Rightarrow> bool) \<Rightarrow> call_fault \<Rightarrow> media_controls \<Rightarrow> media_controls" where
  "update_metadata title artist album thumbnail_path path_exists fault self =
     (if \<not> initialized self \<or> display_updater self = None then self
      else if fault = ImportRaises then self
      else let s1 = self\<lparr>current_title := title, current_artist := artist, current_album := album\<rparr> in
      if fault = NativeRaises then s1
      else let s2 = s1\<lparr>display_updater := map_option
                 (\<lambda>u. u\<lparr>updater_type := MUSIC, music_title := title, music_artist := artist,
                        music_album_title := album\<rparr>) (display_updater s1)\<rparr> in
      if thumbnail_path \<noteq> [] \<and> path_exists thumbnail_path
      then s2\<lparr>thumbnail_workers := thumbnail_workers s2 @ [thumbnail_path]\<rparr>
      else s2\<lparr>display_updater := map_option (\<lambda>u. u\<lparr>updates := updates u + 1\<rparr>) (display_updater s2)\<rparr>)"

definition update_position :: "int \<Rightarrow> media_controls \<Rightarrow> media_controls" where
  "update_position position_ms self = (if \<not> initialized self then self else self)"

definition shutdown :: "media_controls \<Rightarrow> media_controls" where
  "shutdown self =
     self\<lparr>button_pressed_token := None, media_player := False, smtc := None,
          display_updater := None, initialized := False\<rparr>"


section \<open>WindowsNotifications (windows\_integration.py)\<close>

text \<open>
  A display call is one \<open>show_toast\<close> request handed to a background thread; the
  state keeps the requests dispatched so far, oldest first.
\<close>

record toast =
  toast_title :: pystr
  toast_msg :: pystr
  toast_icon :: "pystr option"

record notifications =
  notifier :: bool
  enabled :: bool
  last_track_id :: "pystr option"
  dispatched :: "toast list"

text \<open>
  \<open>WindowsNotifications()\<close>: the notifier exists when win10toast is installed and
  creating the \<open>ToastNotifier\<close> does not raise.
\<close>

definition new_notifications :: "bool \<Rightarrow> bool \<Rightarrow> notifications" where
  "new_notifications HAS_WIN10TOAST creation_raises =
     \<lparr>notifier = (HAS_WIN10TOAST \<and> \<not> creation_raises), enabled = True,
      last_track_id = None, dispatched = []\<rparr>"

definition set_enabled :: "bool \<Rightarrow> notifications \<Rightarrow> notifications" where
  "set_enabled b self = self\<lparr>enabled := b\<rparr>"

definition bullet :: pystr where
  "bullet = [32, 8226, 32]"

definition truthy :: "pystr option \<Rightarrow> bool" where
  "truthy s = (case s of None \<Rightarrow> False | Some t \<Rightarrow> t \<noteq> [])"

definition show_now_playing ::
  "pystr \<Rightarrow> pystr \<Rightarrow> pystr \<Rightarrow> pystr option \<Rightarrow> pystr option \<Rightarrow> (pystr \<Rightarrow> bool) \<Rightarrow> notifications
     \<Rightarrow> bool \<times> notifications" where
  "show_now_playing title artist album icon_path track_id path_exists self =
     (if \<not> enabled self \<or> \<not> notifier self then (False, self)
      else if truthy track_id \<and> track_id = last_track_id self then (False, self)
      else
        let message = (if album \<noteq> [] then artist @ bullet @ album else artist);
            icon = (case icon_path of
                      None \<Rightarrow> None
                    | Some ip \<Rightarrow> if ip \<noteq> [] \<and> path_exists ip then Some ip else None)
        in (True, self\<lparr>last_track_id := track_id,
                      dispatched := dispatched self @
                        [\<lparr>toast_title = title, toast_msg = message, toast_icon = icon\<rparr>]\<rparr>))"


section \<open>Startup registration (windows\_integration.py)\<close>

text \<open>
  The part of the registry the functions touch: how the key
  \<open>HKCU\Software\Microsoft\Windows\CurrentVersion\Run\<close> can be opened, and its
  values. \<open>winreg.OpenKey\<close> raises unless the key grants the access asked for.
\<close>

datatype key_access = Unavailable | ReadOnly | ReadWrite

record registry =
  run_access :: key_access
  run_values :: "pystr \<rightharpoonup> pystr"

text \<open>What \<open>get_startup_command\<close> reads of the process: \<open>sys.frozen\<close>,
  \<open>sys.executable\<close>, the absolute path of \<open>sys.argv[0]\<close> and whether it exists.\<close>

record process =
  frozen :: bool
  executable :: pystr
  main_script :: pystr
  main_script_exists :: bool

definition APP_NAME :: pystr where
  "APP_NAME = py ''HighTide''"

definition get_startup_command :: "process \<Rightarrow> pystr option" where
  "get_startup_command p =
     (if frozen p then Some ([34] @ executable p @ [34])
      else if main_script_exists p
      then Some ([34] @ executable p @ [34, 32, 34] @ main_script p @ [34])
      else None)"

definition is_startup_enabled :: "bool \<Rightarrow> registry \<Rightarrow> bool" where
  "is_startup_enabled IS_WINDOWS reg =
     (if \<not> IS_WINDOWS then False
      else if run_access reg = Unavailable then False
      else (case run_values reg APP_NAME of Some v \<Rightarrow> True | None \<Rightarrow> False))"

definition set_startup_enabled :: "bool \<Rightarrow> process \<Rightarrow> bool \<Rightarrow> registry \<Rightarrow> bool \<times> registry" where
  "set_startup_enabled IS_WINDOWS p enable reg =
     (if \<not> IS_WINDOWS then (False, reg)
      else if run_access reg \<noteq> ReadWrite then (False, reg)
      else if enable then
        (case get_startup_command p of
           None \<Rightarrow> (False, reg)
         | Some startup_cmd \<Rightarrow>
             if startup_cmd \<noteq> []
             then (True, reg\<lparr>run_values := (run_values reg)(APP_NAME \<mapsto> startup_cmd)\<rparr>)
             else (False, reg))
      else (case run_values reg APP_NAME of
              Some v \<Rightarrow> (True, reg\<lparr>run_values := (run_values reg)(APP_NAME := None)\<rparr>)
            | None \<Rightarrow> (True, reg)))"


section \<open>json.loads reads back what json.dumps wrote\<close>

lemma hex_value_hex_digit: "d < 16 \<Longrightarrow> hex_value (hex_digit d) = Some d"
  by (simp add: hex_value_def hex_digit_def)

lemma length_hex4 [simp]: "length (hex4 n) = 4"
  by (simp add: hex4_def)

lemma hex_arith:
  assumes "(n::nat) < 65536"
  shows "4096 * (n div 4096 mod 16) + 256 * (n div 256 mod 16) + 16 * (n div 16 mod 16) + n mod 16 = n"
proof -
  define a where "a = n div 16"
  define b where "b = a div 16"
  define c where "c = b div 16"
  have n: "n = 16 * a + n mod 16" by (simp add: a_def)
  have a: "a = 16 * b + a mod 16" by (simp add: b_def)
  have b: "b = 16 * c + b mod 16" by (simp add: c_def)
  have b2: "n div 256 = b" by (simp add: a_def b_def div_mult2_eq [symmetric])
  have c2: "n div 4096 = c" by (simp add: a_def b_def c_def div_mult2_eq [symmetric])
  have c3: "c < 16" using assms c2 by simp
  have "4096 * (c mod 16) + 256 * (b mod 16) + 16 * (a mod 16) + n mod 16 = n"
    using n a b c3 by simp
  then show ?thesis by (simp add: b2 c2 a_def)
qed

lemma decode_hex4: "n < 65536 \<Longrightarrow> decode_uXXXX (hex4 n @ rest) = Some n"
  using hex_arith [of n] by (simp add: hex4_def hex_value_hex_digit)

lemma scan_u:
  "n < 65536 \<Longrightarrow> \<not> is_high_surrogate n \<Longrightarrow>
   scanstring (92 # 117 # hex4 n @ t) = emit n (scanstring t)"
  by (simp add: decode_hex4)

lemma scan_u_high:
  "n < 65536 \<Longrightarrow> take 2 t \<noteq> [92, 117] \<Longrightarrow>
   scanstring (92 # 117 # hex4 n @ t) = emit n (scanstring t)"
  by (simp add: decode_hex4)

lemma scan_u_high2:
  "n < 65536 \<Longrightarrow> decode_uXXXX (drop 2 t) = Some u2 \<Longrightarrow> \<not> is_low_surrogate u2 \<Longrightarrow>
   scanstring (92 # 117 # hex4 n @ t) = emit n (scanstring t)"
  by (simp add: decode_hex4)

lemma scan_pair:
  assumes h: "is_high_surrogate s1" and l: "is_low_surrogate s2"
  shows "scanstring (92 # 117 # hex4 s1 @ 92 # 117 # hex4 s2 @ t) =
     emit (0x10000 + ((s1 - 0xD800) * 1024 + (s2 - 0xDC00))) (scanstring t)"
proof -
  have a: "s1 < 65536" "s2 < 65536" using h l by (simp_all add: is_high_surrogate_def is_low_surrogate_def)
  show ?thesis using h l a
    by (simp add: decode_hex4)
qed

lemma escape_char_plain:
  "c < 32 \<or> c = 34 \<or> c = 92 \<or> (32 \<le> c \<and> c \<le> 126) \<Longrightarrow> c \<in> {8, 9, 10, 12, 13, 34, 92} \<or> (32 \<le> c \<and> c \<le> 126)
   \<Longrightarrow> scanstring (escape_char c @ t) = emit c (scanstring t)"
  by (auto simp add: escape_char_def unescape_def)

lemma escape_char_u:
  "c \<notin> {8, 9, 10, 12, 13, 34, 92} \<Longrightarrow> \<not> (32 \<le> c \<and> c \<le> 126) \<Longrightarrow> c < 0x10000 \<Longrightarrow>
   escape_char c = 92 # 117 # hex4 c"
  by (simp add: escape_char_def)

lemma escape_char_astral:
  "0x10000 \<le> c \<Longrightarrow>
   escape_char c = 92 # 117 # hex4 (0xD800 + ((c - 0x10000) div 1024) mod 1024) @
                   92 # 117 # hex4 (0xDC00 + (c - 0x10000) mod 1024)"
  by (simp add: escape_char_def Let_def)

lemma astral_units:
  assumes "0x10000 \<le> c" "c < 0x110000"
  shows "is_high_surrogate (0xD800 + ((c - 0x10000) div 1024) mod 1024)"
    and "is_low_surrogate (0xDC00 + (c - 0x10000) mod 1024)"
    and "0x10000 + (((0xD800 + ((c - 0x10000) div 1024) mod 1024) - 0xD800) * 1024
           + ((0xDC00 + (c - 0x10000) mod 1024) - 0xDC00)) = c"
proof -
  define n where "n = c - 0x10000"
  have n: "n < 0x100000" "c = n + 0x10000" using assms by (simp_all add: n_def)
  have d: "n div 1024 < 1024" using n by simp
  then have m: "n div 1024 mod 1024 = n div 1024" by simp
  have r: "n mod 1024 < 1024" by simp
  show "is_high_surrogate (0xD800 + ((c - 0x10000) div 1024) mod 1024)"
    using d by (simp add: is_high_surrogate_def n_def [symmetric] m)
  show "is_low_surrogate (0xDC00 + (c - 0x10000) mod 1024)"
    using r by (simp add: is_low_surrogate_def n_def [symmetric])
  have "n div 1024 * 1024 + n mod 1024 = n" by simp
  then show "0x10000 + (((0xD800 + ((c - 0x10000) div 1024) mod 1024) - 0xD800) * 1024
           + ((0xDC00 + (c - 0x10000) mod 1024) - 0xDC00)) = c"
    by (simp add: n_def [symmetric] m n(2))
qed

lemma scan_escape_char:
  assumes v: "c < 0x110000"
    and nxt: "is_high_surrogate c \<Longrightarrow>
        take 2 t \<noteq> [92, 117] \<or> (\<exists>u2. decode_uXXXX (drop 2 t) = Some u2 \<and> \<not> is_low_surrogate u2)"
  shows "scanstring (escape_char c @ t) = emit c (scanstring t)"
proof -
  consider (plain) "c \<in> {8, 9, 10, 12, 13, 34, 92} \<or> (32 \<le> c \<and> c \<le> 126)"
    | (u) "c \<notin> {8, 9, 10, 12, 13, 34, 92}" "\<not> (32 \<le> c \<and> c \<le> 126)" "c < 0x10000"
    | (astral) "0x10000 \<le> c"
    by fastforce
  then show ?thesis
  proof cases
    case plain
    then show ?thesis by (intro escape_char_plain) auto
  next
    case u
    show ?thesis
    proof (cases "is_high_surrogate c")
      case False
      show ?thesis unfolding escape_char_u [OF u] append_Cons
        by (rule scan_u [OF u(3) False])
    next
      case True
      from nxt [OF True] show ?thesis
      proof
        assume a: "take 2 t \<noteq> [92, 117]"
        show ?thesis unfolding escape_char_u [OF u] append_Cons
          by (rule scan_u_high [OF u(3) a])
      next
        assume "\<exists>u2. decode_uXXXX (drop 2 t) = Some u2 \<and> \<not> is_low_surrogate u2"
        then obtain u2 where a: "decode_uXXXX (drop 2 t) = Some u2" "\<not> is_low_surrogate u2" by blast
        show ?thesis unfolding escape_char_u [OF u] append_Cons
          by (rule scan_u_high2 [OF u(3) a])
      qed
    qed
  next
    case astral
    show ?thesis
      by (simp only: escape_char_astral [OF astral] append_Cons append_assoc
            scan_pair [OF astral_units(1,2) [OF astral v]] astral_units(3) [OF astral v])
  qed
qed

lemma escape_str_simps [simp]:
  "escape_str [] = []"
  "escape_str (c # s) = escape_char c @ escape_str s"
  by (simp_all add: escape_str_def)

lemma plain_head:
  "d \<in> {8, 9, 10, 12, 13, 34, 92} \<or> (32 \<le> d \<and> d \<le> 126) \<Longrightarrow>
   take 2 (escape_char d @ t) \<noteq> [92, 117]"
  by (cases "d = 92"; cases "d = 34"; cases "32 \<le> d \<and> d \<le> 126") (auto simp add: escape_char_def)

lemma next_unit:
  assumes v: "valid_str s"
    and hd: "case s of [] \<Rightarrow> True | d # _ \<Rightarrow> \<not> is_low_surrogate d"
  shows "take 2 (escape_str s @ 34 # rest) \<noteq> [92, 117]
       \<or> (\<exists>u2. decode_uXXXX (drop 2 (escape_str s @ 34 # rest)) = Some u2 \<and> \<not> is_low_surrogate u2)"
proof (cases s)
  case Nil
  then show ?thesis by simp
next
  case (Cons d s')
  have dv: "d < 0x110000" and nl: "\<not> is_low_surrogate d"
    using v hd Cons by (simp_all add: valid_str_def)
  consider (plain) "d \<in> {8, 9, 10, 12, 13, 34, 92} \<or> (32 \<le> d \<and> d \<le> 126)"
    | (u) "d \<notin> {8, 9, 10, 12, 13, 34, 92}" "\<not> (32 \<le> d \<and> d \<le> 126)" "d < 0x10000"
    | (astral) "0x10000 \<le> d"
    by fastforce
  then show ?thesis
  proof cases
    case plain
    then have "take 2 (escape_char d @ escape_str s' @ 34 # rest) \<noteq> [92, 117]"
      by (rule plain_head)
    then show ?thesis unfolding Cons escape_str_simps append_assoc by (rule disjI1)
  next
    case u
    have "decode_uXXXX (drop 2 (escape_str s @ 34 # rest)) = Some d"
      by (simp only: Cons escape_str_simps escape_char_u [OF u] append_Cons append_assoc
            drop_Suc_Cons numeral_2_eq_2 drop_0 decode_hex4 [OF u(3)])
    then show ?thesis using nl by blast
  next
    case astral
    let ?s1 = "0xD800 + ((d - 0x10000) div 1024) mod 1024"
    have h: "is_high_surrogate ?s1" by (rule astral_units(1) [OF astral dv])
    then have lt: "?s1 < 65536" by (simp add: is_high_surrogate_def)
    have "decode_uXXXX (drop 2 (escape_str s @ 34 # rest)) = Some ?s1"
      by (simp only: Cons escape_str_simps escape_char_astral [OF astral] append_Cons append_assoc
            drop_Suc_Cons numeral_2_eq_2 drop_0 decode_hex4 [OF lt])
    moreover have "\<not> is_low_surrogate ?s1"
      using h by (simp add: is_high_surrogate_def is_low_surrogate_def)
    ultimately show ?thesis by blast
  qed
qed

lemma emit_Some [simp]: "emit c (Some (s, rest)) = Some (c # s, rest)"
  by (simp add: emit_def)

lemma scanstring_escape_str:
  "valid_str s \<Longrightarrow> pair_free s \<Longrightarrow> scanstring (escape_str s @ 34 # rest) = Some (s, rest)"
proof (induction s)
  case Nil
  then show ?case by simp
next
  case (Cons c s)
  have v: "c < 0x110000" "valid_str s" using Cons.prems(1) by (simp_all add: valid_str_def)
  have pf: "pair_free s" using Cons.prems(2) by (cases s) simp_all
  have nxt: "is_high_surrogate c \<Longrightarrow>
      take 2 (escape_str s @ 34 # rest) \<noteq> [92, 117]
       \<or> (\<exists>u2. decode_uXXXX (drop 2 (escape_str s @ 34 # rest)) = Some u2 \<and> \<not> is_low_surrogate u2)"
  proof -
    assume h: "is_high_surrogate c"
    have "case s of [] \<Rightarrow> True | d # _ \<Rightarrow> \<not> is_low_surrogate d"
      using Cons.prems(2) h by (cases s) simp_all
    then show ?thesis by (rule next_unit [OF v(2)])
  qed
  have "scanstring (escape_char c @ escape_str s @ 34 # rest) = emit c (scanstring (escape_str s @ 34 # rest))"
    by (rule scan_escape_char [OF v(1) nxt])
  then show ?case by (simp add: Cons.IH [OF v(2) pf])
qed

lemma skip_ws_space [simp]: "skip_ws (32 # cs) = skip_ws cs"
  by (simp add: skip_ws_def is_ws_def)

lemma skip_ws_mark [simp]:
  "skip_ws (34 # cs) = 34 # cs" "skip_ws (44 # cs) = 44 # cs" "skip_ws (58 # cs) = 58 # cs"
  "skip_ws (123 # cs) = 123 # cs" "skip_ws (125 # cs) = 125 # cs" "skip_ws [] = []"
  by (simp_all add: skip_ws_def is_ws_def)

lemma scan_once_string:
  assumes "valid_str v" "pair_free v"
  shows "scan_once (Suc n) (34 # escape_str v @ 34 # rest) = Some (JStr v, rest)"
  by (simp add: scanstring_escape_str [OF assms])

lemma scan_object_last:
  assumes k: "valid_str k" "pair_free k" and v: "valid_str v" "pair_free v"
  shows "scan_object (Suc (Suc n)) (escape_str k @ 34 # 58 # 32 # 34 # escape_str v @ 34 # 125 # rest)
         = Some ([(k, JStr v)], rest)"
  by (simp add: scanstring_escape_str [OF k] scan_once_string [OF v] del: scan_once.simps)

lemma scan_object_more:
  assumes k: "valid_str k" "pair_free k" and v: "valid_str v" "pair_free v"
  shows "scan_object (Suc (Suc n))
           (escape_str k @ 34 # 58 # 32 # 34 # escape_str v @ 34 # 44 # 32 # 34 # rest)
         = map_option (\<lambda>(pairs, r). ((k, JStr v) # pairs, r)) (scan_object (Suc n) rest)"
  apply (subst scan_object.simps(2))
  apply (simp add: scanstring_escape_str [OF k] scan_once_string [OF v]
      del: scan_once.simps scan_object.simps)
  done

lemma py_dict_distinct4:
  "distinct [k1, k2, k3, k4] \<Longrightarrow>
   py_dict [(k1, a), (k2, b), (k3, c), (k4, d)] = [(k1, a), (k2, b), (k3, c), (k4, d)]"
  by (auto simp add: py_dict_def)

lemma loads_dumps_bundle:
  assumes k1: "valid_str k1" "pair_free k1" and k2: "valid_str k2" "pair_free k2"
    and k3: "valid_str k3" "pair_free k3" and k4: "valid_str k4" "pair_free k4"
    and a: "valid_str a" "pair_free a" and b: "valid_str b" "pair_free b"
    and c: "valid_str c" "pair_free c" and d: "valid_str d" "pair_free d"
    and dist: "distinct [k1, k2, k3, k4]"
  shows "json_loads (json_dumps (JObj [(k1, JStr a), (k2, JStr b), (k3, JStr c), (k4, JStr d)]))
         = Inr (JObj [(k1, JStr a), (k2, JStr b), (k3, JStr c), (k4, JStr d)])"
proof -
  let ?m4 = "escape_str k4 @ 34 # 58 # 32 # 34 # escape_str d @ 34 # 125 # []"
  let ?m3 = "escape_str k3 @ 34 # 58 # 32 # 34 # escape_str c @ 34 # 44 # 32 # 34 # ?m4"
  let ?m2 = "escape_str k2 @ 34 # 58 # 32 # 34 # escape_str b @ 34 # 44 # 32 # 34 # ?m3"
  let ?m1 = "escape_str k1 @ 34 # 58 # 32 # 34 # escape_str a @ 34 # 44 # 32 # 34 # ?m2"
  have dumped: "json_dumps (JObj [(k1, JStr a), (k2, JStr b), (k3, JStr c), (k4, JStr d)])
              = 123 # 34 # ?m1"
    by (simp add: encode_basestring_ascii_def)
  have "3 \<le> length ?m1" by simp
  then obtain n where "length ?m1 = 3 + n"
    using le_Suc_ex by blast
  then have n: "Suc (length (123 # 34 # ?m1)) = Suc (Suc (Suc (Suc (Suc (Suc n)))))"
    by simp
  have s4: "scan_object (Suc (Suc n)) ?m4 = Some ([(k4, JStr d)], [])"
    by (rule scan_object_last [OF k4 d])
  have s3: "scan_object (Suc (Suc (Suc n))) ?m3 = Some ([(k3, JStr c), (k4, JStr d)], [])"
    by (simp only: scan_object_more [OF k3 c] s4 option.map prod.case)
  have s2: "scan_object (Suc (Suc (Suc (Suc n)))) ?m2
            = Some ([(k2, JStr b), (k3, JStr c), (k4, JStr d)], [])"
    by (simp only: scan_object_more [OF k2 b] s3 option.map prod.case)
  have s1: "scan_object (Suc (Suc (Suc (Suc (Suc n))))) ?m1
            = Some ([(k1, JStr a), (k2, JStr b), (k3, JStr c), (k4, JStr d)], [])"
    by (simp only: scan_object_more [OF k1 a] s2 option.map prod.case)
  have "scan_once (Suc (Suc (Suc (Suc (Suc (Suc n)))))) (123 # 34 # ?m1)
        = Some (JObj [(k1, JStr a), (k2, JStr b), (k3, JStr c), (k4, JStr d)], [])"
    apply (subst scan_once.simps(2))
    apply (simp only: list.case skip_ws_mark s1 option.map prod.case py_dict_distinct4 [OF dist])
    apply simp
    done
  then show ?thesis
    unfolding json_loads_def dumped n
    by (simp del: scan_once.simps scan_object.simps)
qed


section \<open>UTF-16LE on ASCII text\<close>

lemma ascii_simps [simp]:
  "ascii []" "ascii (c # s) = (c < 128 \<and> ascii s)" "ascii (s @ t) = (ascii s \<and> ascii t)"
  by (simp_all add: ascii_def)

lemma unit_of_unit_bytes:
  "u < 65536 \<Longrightarrow> unit_bytes u = [b0, b1] \<Longrightarrow> unit_of b0 b1 = u"
proof -
  assume u: "u < 65536" and e: "unit_bytes u = [b0, b1]"
  have lo: "unat (of_nat (u mod 256) :: byte) = u mod 256"
    by (simp add: unat_of_nat)
  have "u div 256 < 256" using u by simp
  then have hi: "unat (of_nat (u div 256) :: byte) = u div 256"
    by (simp add: unat_of_nat)
  show ?thesis using e lo hi by (auto simp add: unit_bytes_def unit_of_def)
qed

lemma utf_16_le_encode_ascii:
  "ascii s \<Longrightarrow> utf_16_le_encode s = Inr (concat (map unit_bytes s))"
  by (induction s) (simp_all add: is_high_surrogate_def is_low_surrogate_def)

lemma utf_16_le_decode_ascii:
  "ascii s \<Longrightarrow> utf_16_le_decode (concat (map unit_bytes s)) = Inr s"
proof (induction s)
  case Nil
  then show ?case by simp
next
  case (Cons c s)
  then have c: "c < 128" and s: "ascii s" by simp_all
  obtain b0 b1 where b: "unit_bytes c = [b0, b1]" by (simp add: unit_bytes_def)
  have u: "unit_of b0 b1 = c" using c by (intro unit_of_unit_bytes [OF _ b]) simp
  show ?case using c Cons.IH [OF s]
    by (simp add: b u is_high_surrogate_def is_low_surrogate_def put_def)
qed

lemma length_utf16_ascii: "length (concat (map unit_bytes s)) = 2 * length s"
  by (induction s) (simp_all add: unit_bytes_def)

lemma hex_digit_bound: "d < 16 \<Longrightarrow> hex_digit d < 128"
  by (simp add: hex_digit_def)

lemma hex_digit_ascii: "hex_digit (x mod 16) < 128"
  by (rule hex_digit_bound) simp

lemma ascii_hex4 [simp]: "ascii (hex4 n)"
  by (simp add: hex4_def hex_digit_ascii)

lemma ascii_escape_char [simp]: "ascii (escape_char c)"
  by (simp add: escape_char_def Let_def)

lemma ascii_escape_str [simp]: "ascii (escape_str s)"
  by (induction s) simp_all

lemma ascii_basestring [simp]: "ascii (encode_basestring_ascii s)"
  by (simp add: encode_basestring_ascii_def)

lemma length_escape_char: "1 \<le> length (escape_char c)"
  by (simp add: escape_char_def Let_def)

lemma length_escape_str: "length s \<le> length (escape_str s)"
proof (induction s)
  case Nil
  then show ?case by simp
next
  case (Cons c s)
  then show ?case using length_escape_char [of c] by simp
qed


section \<open>Properties of the in-memory bundle\<close>

lemma has_credentials_dict:
  "has_credentials \<lparr>token_dictionary = JObj d\<rparr> =
     Inr (map_of d (py ''token-type'') \<noteq> None \<and>
          map_of d (py ''access-token'') \<noteq> None \<and>
          map_of d (py ''refresh-token'') \<noteq> None)"
  by (simp add: has_credentials_def required_keys_def)

lemma required_ne_expiry:
  "py ''token-type'' \<noteq> py ''expiry-time''"
  "py ''access-token'' \<noteq> py ''expiry-time''"
  "py ''refresh-token'' \<noteq> py ''expiry-time''"
  by (simp_all add: py_def)

lemma map_of_filter_other:
  "k \<noteq> e \<Longrightarrow> map_of (filter (\<lambda>kv. fst kv \<noteq> e) d) k = map_of d k"
  by (induction d) auto

text \<open>
  C3. For every bundle that is a dictionary, \<open>has_credentials()\<close> returns normally,
  and returns true exactly when the three keys \<open>token-type\<close>, \<open>access-token\<close> and
  \<open>refresh-token\<close> are all present. The answer does not look at \<open>expiry-time\<close>:
  storing any value under that key, or removing the key, leaves the answer as it was.
\<close>

theorem has_credentials_iff_required_keys:
  "has_credentials \<lparr>token_dictionary = JObj d\<rparr> =
     Inr (py ''token-type'' \<in> fst ` set d \<and>
          py ''access-token'' \<in> fst ` set d \<and>
          py ''refresh-token'' \<in> fst ` set d)
   \<and> has_credentials \<lparr>token_dictionary = JObj ((py ''expiry-time'', v) # d)\<rparr> =
       has_credentials \<lparr>token_dictionary = JObj d\<rparr>
   \<and> has_credentials \<lparr>token_dictionary = JObj (filter (\<lambda>kv. fst kv \<noteq> py ''expiry-time'') d)\<rparr> =
       has_credentials \<lparr>token_dictionary = JObj d\<rparr>"
  unfolding has_credentials_dict
  by (simp add: map_of_filter_other required_ne_expiry map_of_eq_None_iff)

theorem has_credentials_iff_required_keys_witness:
  "has_credentials \<lparr>token_dictionary = JObj [(py ''token-type'', JStr (py ''Bearer'')),
        (py ''access-token'', JStr (py ''A''))]\<rparr> = Inr False
   \<and> has_credentials \<lparr>token_dictionary = JObj [(py ''token-type'', JStr (py ''Bearer'')),
        (py ''access-token'', JStr (py ''A'')), (py ''refresh-token'', JStr (py ''R''))]\<rparr> = Inr True"
  using has_credentials_iff_required_keys
    [of "[(py ''token-type'', JStr (py ''Bearer'')), (py ''access-token'', JStr (py ''A''))]" JNull]
    has_credentials_iff_required_keys
    [of "[(py ''token-type'', JStr (py ''Bearer'')), (py ''access-token'', JStr (py ''A'')),
          (py ''refresh-token'', JStr (py ''R''))]" JNull]
  by (simp add: py_def)

text \<open>
  C4. When \<open>has_credentials()\<close> is true of a dictionary bundle, \<open>get()\<close> returns the
  values stored under \<open>token-type\<close>, \<open>access-token\<close> and \<open>refresh-token\<close>, in that
  order, and raises nothing. On the empty bundle \<open>get()\<close> returns no value: it raises
  \<open>KeyError\<close> for the first key, an exception that nothing in the store catches or logs.
\<close>

theorem get_returns_tokens:
  "(has_credentials \<lparr>token_dictionary = JObj d\<rparr> = Inr True \<longrightarrow>
      (\<exists>t a r. map_of d (py ''token-type'') = Some t \<and>
               map_of d (py ''access-token'') = Some a \<and>
               map_of d (py ''refresh-token'') = Some r \<and>
               get \<lparr>token_dictionary = JObj d\<rparr> = Inr (t, a, r)))
   \<and> get \<lparr>token_dictionary = JObj []\<rparr> = Inl (KeyError (py ''token-type''))"
  by (auto simp add: has_credentials_dict get_def then_do_def)

theorem get_returns_tokens_witness:
  "has_credentials \<lparr>token_dictionary = JObj [(py ''token-type'', JStr (py ''Bearer'')),
        (py ''access-token'', JStr (py ''A'')), (py ''refresh-token'', JStr (py ''R''))]\<rparr> = Inr True
   \<and> get \<lparr>token_dictionary = JObj [(py ''token-type'', JStr (py ''Bearer'')),
        (py ''access-token'', JStr (py ''A'')), (py ''refresh-token'', JStr (py ''R''))]\<rparr>
      = Inr (JStr (py ''Bearer''), JStr (py ''A''), JStr (py ''R''))"
  using get_returns_tokens
    [of "[(py ''token-type'', JStr (py ''Bearer'')), (py ''access-token'', JStr (py ''A'')),
          (py ''refresh-token'', JStr (py ''R''))]"]
  by (simp add: has_credentials_def required_keys_def py_def)


section \<open>Properties of persistence\<close>

lemma key_well_formed:
  "well_formed (py ''token-type'')" "well_formed (py ''access-token'')"
  "well_formed (py ''refresh-token'')" "well_formed (py ''expiry-time'')"
  by (simp_all add: well_formed_def valid_str_def py_def is_high_surrogate_def)

lemma keys_distinct:
  "distinct [py ''token-type'', py ''access-token'', py ''refresh-token'', py ''expiry-time'']"
  by (simp add: py_def)

lemma loads_dumps_session:
  assumes "well_formed (token_type sess)" "well_formed (access_token sess)"
    "well_formed (refresh_token sess)" "well_formed (py_str (expiry_time sess))"
  shows "json_loads (json_dumps (bundle_of sess)) = Inr (bundle_of sess)"
  unfolding bundle_of_def
  using assms key_well_formed keys_distinct
  by (intro loads_dumps_bundle) (simp_all add: well_formed_def)

lemma dumps_bundle_ascii: "ascii (json_dumps (bundle_of sess))"
  by (simp add: bundle_of_def py_def)

lemma dumps_bundle_nonempty: "json_dumps (bundle_of sess) \<noteq> []"
  by (simp add: bundle_of_def)

lemma write_accepted:
  "ascii p \<Longrightarrow> 2 * length p \<le> blob_limit v \<Longrightarrow>
   windows_write_credential p v = Inr (True, v\<lparr>cred_blob := Some (concat (map unit_bytes p))\<rparr>)"
  by (simp add: windows_write_credential_def utf_16_le_encode_ascii then_do_def length_utf16_ascii)

lemma write_refused:
  "ascii p \<Longrightarrow> blob_limit v < 2 * length p \<Longrightarrow> windows_write_credential p v = Inr (False, v)"
  by (simp add: windows_write_credential_def utf_16_le_encode_ascii then_do_def length_utf16_ascii)

lemma c_byte_ascii:
  "ascii p \<Longrightarrow> py_bytes (map c_byte (concat (map unit_bytes p))) = Inr (concat (map unit_bytes p))"
proof -
  assume a: "ascii p"
  have u: "\<And>c. c < 128 \<Longrightarrow> map c_byte (unit_bytes c) = [int c, 0]"
    by (simp add: unit_bytes_def c_byte_def unat_of_nat)
  have w: "\<And>c. c < 128 \<Longrightarrow> [of_nat c, 0] = unit_bytes c"
    by (simp add: unit_bytes_def)
  from a have all: "list_all (\<lambda>i. 0 \<le> i \<and> i < 256) (map c_byte (concat (map unit_bytes p)))"
    by (induction p) (simp_all add: u)
  from a have same: "map of_int (map c_byte (concat (map unit_bytes p))) = concat (map unit_bytes p)"
    by (induction p) (simp_all add: u w del: map_map)
  show ?thesis by (simp only: py_bytes_def all same if_True)
qed

lemma read_written:
  "ascii p \<Longrightarrow> p \<noteq> [] \<Longrightarrow>
   windows_read_credential (v\<lparr>cred_blob := Some (concat (map unit_bytes p))\<rparr>) = Inr (Some p)"
  by (simp add: windows_read_credential_def c_byte_ascii utf_16_le_decode_ascii then_do_def
      length_utf16_ascii)

lemma has_credentials_bundle:
  "has_credentials \<lparr>token_dictionary = bundle_of sess\<rparr> = Inr True"
  by (simp add: bundle_of_def has_credentials_def required_keys_def py_def)

lemma get_bundle:
  "get \<lparr>token_dictionary = bundle_of sess\<rparr> =
     Inr (JStr (token_type sess), JStr (access_token sess), JStr (refresh_token sess))"
  by (simp add: bundle_of_def get_def then_do_def py_def)


lemma init_windows_written:
  assumes "well_formed (token_type sess)" "well_formed (access_token sess)"
    "well_formed (refresh_token sess)" "well_formed (py_str (expiry_time sess))"
  shows "init_windows (v\<lparr>cred_blob := Some (concat (map unit_bytes (json_dumps (bundle_of sess))))\<rparr>)
         = \<lparr>token_dictionary = bundle_of sess\<rparr>"
  by (simp add: init_windows_def read_written [OF dumps_bundle_ascii dumps_bundle_nonempty]
      then_do_def load_password_def dumps_bundle_nonempty loads_dumps_session [OF assms])

lemma init_linux_stored:
  assumes "well_formed (token_type sess)" "well_formed (access_token sess)"
    "well_formed (refresh_token sess)" "well_formed (py_str (expiry_time sess))"
    and "reachable k"
  shows "init_linux (k\<lparr>item := Some (json_dumps (bundle_of sess))\<rparr>)
         = Inr (\<lparr>token_dictionary = bundle_of sess\<rparr>,
                k\<lparr>item := Some (json_dumps (bundle_of sess)), locked := False\<rparr>)"
  using assms(5)
  by (cases "locked k")
    (simp_all add: init_linux_def ensure_unlocked_def password_lookup_sync_def then_do_def
      load_password_def dumps_bundle_nonempty loads_dumps_session [OF assms(1-4)])

lemma round_trip_when_written:
  assumes "well_formed (token_type sess)" "well_formed (access_token sess)"
    "well_formed (refresh_token sess)" "well_formed (py_str (expiry_time sess))"
    and "takes_write b (json_dumps (bundle_of sess))"
  shows "\<exists>b' b''.
           save sess self b = (Returned, \<lparr>token_dictionary = bundle_of sess\<rparr>, b')
         \<and> SecretStore_init b' = Inr (\<lparr>token_dictionary = bundle_of sess\<rparr>, b'')
         \<and> has_credentials \<lparr>token_dictionary = bundle_of sess\<rparr> = Inr True
         \<and> get \<lparr>token_dictionary = bundle_of sess\<rparr> =
             Inr (JStr (token_type sess), JStr (access_token sess), JStr (refresh_token sess))"
proof (cases b)
  case (NativeVault v)
  let ?p = "json_dumps (bundle_of sess)"
  have "2 * length ?p \<le> blob_limit v"
    using assms(5) by (simp add: takes_write_def NativeVault
        utf_16_le_encode_ascii [OF dumps_bundle_ascii] length_utf16_ascii)
  then have w: "windows_write_credential ?p v
      = Inr (True, v\<lparr>cred_blob := Some (concat (map unit_bytes ?p))\<rparr>)"
    by (rule write_accepted [OF dumps_bundle_ascii])
  have "save sess self b = (Returned, \<lparr>token_dictionary = bundle_of sess\<rparr>,
          NativeVault (v\<lparr>cred_blob := Some (concat (map unit_bytes ?p))\<rparr>))"
    by (simp add: save_def NativeVault w)
  moreover have "SecretStore_init (NativeVault (v\<lparr>cred_blob := Some (concat (map unit_bytes ?p))\<rparr>))
      = Inr (\<lparr>token_dictionary = bundle_of sess\<rparr>,
             NativeVault (v\<lparr>cred_blob := Some (concat (map unit_bytes ?p))\<rparr>))"
    by (simp add: SecretStore_init_def init_windows_written [OF assms(1-4)])
  ultimately show ?thesis
    using has_credentials_bundle get_bundle by blast
next
  case (SecretService k)
  let ?p = "json_dumps (bundle_of sess)"
  have r: "reachable k" using assms(5) by (simp add: takes_write_def SecretService)
  have "save sess self b = (Returned, \<lparr>token_dictionary = bundle_of sess\<rparr>,
          SecretService (k\<lparr>item := Some ?p\<rparr>))"
    using r by (simp add: save_def SecretService password_store_sync_def)
  moreover have "SecretStore_init (SecretService (k\<lparr>item := Some ?p\<rparr>))
      = Inr (\<lparr>token_dictionary = bundle_of sess\<rparr>,
             SecretService (k\<lparr>item := Some ?p, locked := False\<rparr>))"
    by (simp add: SecretStore_init_def init_linux_stored [OF assms(1-4) r] then_do_def)
  ultimately show ?thesis
    using has_credentials_bundle get_bundle by blast
qed

lemma save_when_refused:
  assumes "\<not> takes_write (NativeVault v) (json_dumps (bundle_of sess))"
  shows "save sess self (NativeVault v)
         = (Returned, \<lparr>token_dictionary = bundle_of sess\<rparr>, NativeVault v)"
proof -
  have "blob_limit v < 2 * length (json_dumps (bundle_of sess))"
    using assms
    by (simp add: takes_write_def utf_16_le_encode_ascii [OF dumps_bundle_ascii] length_utf16_ascii)
  then have "windows_write_credential (json_dumps (bundle_of sess)) v = Inr (False, v)"
    by (rule write_refused [OF dumps_bundle_ascii])
  then show ?thesis by (simp add: save_def)
qed

lemma takes_write_vault:
  "2 * length (json_dumps (bundle_of sess)) \<le> blob_limit v \<Longrightarrow>
   takes_write (NativeVault v) (json_dumps (bundle_of sess))"
  by (simp add: takes_write_def utf_16_le_encode_ascii [OF dumps_bundle_ascii] length_utf16_ascii)

lemma not_takes_write_vault:
  "blob_limit v < 2 * length (json_dumps (bundle_of sess)) \<Longrightarrow>
   \<not> takes_write (NativeVault v) (json_dumps (bundle_of sess))"
  by (simp add: takes_write_def utf_16_le_encode_ascii [OF dumps_bundle_ascii] length_utf16_ascii)

lemma length_spec_example:
  "length (json_dumps (bundle_of \<lparr>token_type = py ''Bearer'', access_token = py ''A'',
      refresh_token = py ''R'', expiry_time = PyStr (py ''2025-01-01'')\<rparr>)) = 96"
  by (simp add: bundle_of_def py_def encode_basestring_ascii_def escape_char_def)

lemma length_dumps_bundle:
  "length (access_token sess) \<le> length (json_dumps (bundle_of sess))"
  using length_escape_str [of "access_token sess"]
  by (simp add: bundle_of_def encode_basestring_ascii_def)

lemma vault_refuses_long_token:
  "save \<lparr>token_type = py ''Bearer'', access_token = replicate 1300 97,
         refresh_token = py ''R'', expiry_time = PyStr (py ''2025-01-01'')\<rparr>
     empty_store (NativeVault \<lparr>cred_blob = None, blob_limit = 2560\<rparr>)
     = (Returned,
        \<lparr>token_dictionary = bundle_of \<lparr>token_type = py ''Bearer'', access_token = replicate 1300 97,
           refresh_token = py ''R'', expiry_time = PyStr (py ''2025-01-01'')\<rparr>\<rparr>,
        NativeVault \<lparr>cred_blob = None, blob_limit = 2560\<rparr>)
   \<and> SecretStore_init (NativeVault \<lparr>cred_blob = None, blob_limit = 2560\<rparr>)
       = Inr (\<lparr>token_dictionary = JObj []\<rparr>, NativeVault \<lparr>cred_blob = None, blob_limit = 2560\<rparr>)
   \<and> has_credentials \<lparr>token_dictionary = JObj []\<rparr> = Inr False"
proof -
  let ?sess = "\<lparr>token_type = py ''Bearer'', access_token = replicate 1300 97,
         refresh_token = py ''R'', expiry_time = PyStr (py ''2025-01-01'')\<rparr>"
  let ?v = "\<lparr>cred_blob = None, blob_limit = 2560\<rparr>"
  have "1300 \<le> length (json_dumps (bundle_of ?sess))"
    using length_dumps_bundle [of ?sess] by simp
  then have "blob_limit ?v < 2 * length (json_dumps (bundle_of ?sess))" by simp
  then have "windows_write_credential (json_dumps (bundle_of ?sess)) ?v = Inr (False, ?v)"
    by (rule write_refused [OF dumps_bundle_ascii])
  then have "save ?sess empty_store (NativeVault ?v)
      = (Returned, \<lparr>token_dictionary = bundle_of ?sess\<rparr>, NativeVault ?v)"
    by (simp add: save_def empty_store_def)
  moreover have "SecretStore_init (NativeVault ?v) = Inr (\<lparr>token_dictionary = JObj []\<rparr>, NativeVault ?v)"
    by (simp add: SecretStore_init_def init_windows_def windows_read_credential_def then_do_def
        load_password_def empty_store_def)
  moreover have "has_credentials \<lparr>token_dictionary = JObj []\<rparr> = Inr False"
    by (simp add: has_credentials_def required_keys_def)
  ultimately show ?thesis by simp
qed

lemma surrogate_pair_is_joined:
  "fst (snd (save \<lparr>token_type = py ''Bearer'', access_token = [0xD83D, 0xDE00],
               refresh_token = py ''R'', expiry_time = PyStr (py ''2025-01-01'')\<rparr>
            empty_store (SecretService \<lparr>reachable = True, locked = False, item = None\<rparr>)))
     = \<lparr>token_dictionary = JObj [(py ''token-type'', JStr (py ''Bearer'')),
           (py ''access-token'', JStr [0xD83D, 0xDE00]),
           (py ''refresh-token'', JStr (py ''R'')),
           (py ''expiry-time'', JStr (py ''2025-01-01''))]\<rparr>
   \<and> SecretStore_init
        (snd (snd (save \<lparr>token_type = py ''Bearer'', access_token = [0xD83D, 0xDE00],
               refresh_token = py ''R'', expiry_time = PyStr (py ''2025-01-01'')\<rparr>
            empty_store (SecretService \<lparr>reachable = True, locked = False, item = None\<rparr>))))
     = Inr (\<lparr>token_dictionary = JObj [(py ''token-type'', JStr (py ''Bearer'')),
           (py ''access-token'', JStr [0x1F600]),
           (py ''refresh-token'', JStr (py ''R'')),
           (py ''expiry-time'', JStr (py ''2025-01-01''))]\<rparr>,
         snd (snd (save \<lparr>token_type = py ''Bearer'', access_token = [0xD83D, 0xDE00],
               refresh_token = py ''R'', expiry_time = PyStr (py ''2025-01-01'')\<rparr>
            empty_store (SecretService \<lparr>reachable = True, locked = False, item = None\<rparr>))))"
  by (simp add: save_def empty_store_def bundle_of_def password_store_sync_def py_def
      encode_basestring_ascii_def escape_char_def hex4_def hex_digit_def
      SecretStore_init_def init_linux_def ensure_unlocked_def password_lookup_sync_def then_do_def
      load_password_def json_loads_def skip_ws_def is_ws_def py_dict_def emit_def unescape_def
      hex_value_def is_high_surrogate_def is_low_surrogate_def)

lemma save_raises_when_unreachable:
  "save \<lparr>token_type = py ''Bearer'', access_token = py ''A'',
         refresh_token = py ''R'', expiry_time = PyStr (py ''2025-01-01'')\<rparr>
     empty_store (SecretService \<lparr>reachable = False, locked = False, item = None\<rparr>)
   = (Raised GLibError,
      \<lparr>token_dictionary = bundle_of \<lparr>token_type = py ''Bearer'', access_token = py ''A'',
         refresh_token = py ''R'', expiry_time = PyStr (py ''2025-01-01'')\<rparr>\<rparr>,
      SecretService \<lparr>reachable = False, locked = False, item = None\<rparr>)"
  by (simp add: save_def empty_store_def password_store_sync_def)

text \<open>
  C1, as stated, fails, in three ways. A write the vault refuses is only logged: with
  an access token of 1300 characters the blob exceeds the \<open>5 * 512\<close> bytes the vault
  accepts, \<open>save()\<close> returns normally with the bundle in memory, the vault stays empty,
  and a fresh store constructed against it has the empty bundle and no credentials.
  A string is not always read back as it was written: an access token made of a lone
  high surrogate followed by a lone low surrogate is written as two \<open>\uXXXX\<close>
  escapes, which the fresh store reads as the single code point \<open>0x1F600\<close>. And with
  the secret service unreachable \<open>save()\<close> does not return: it raises \<open>GLib.Error\<close>
  and nothing is stored.
\<close>

theorem save_refused_counterexample:
  "(save \<lparr>token_type = py ''Bearer'', access_token = replicate 1300 97,
         refresh_token = py ''R'', expiry_time = PyStr (py ''2025-01-01'')\<rparr>
     empty_store (NativeVault \<lparr>cred_blob = None, blob_limit = 2560\<rparr>)
     = (Returned,
        \<lparr>token_dictionary = bundle_of \<lparr>token_type = py ''Bearer'', access_token = replicate 1300 97,
           refresh_token = py ''R'', expiry_time = PyStr (py ''2025-01-01'')\<rparr>\<rparr>,
        NativeVault \<lparr>cred_blob = None, blob_limit = 2560\<rparr>)
   \<and> SecretStore_init (NativeVault \<lparr>cred_blob = None, blob_limit = 2560\<rparr>)
       = Inr (\<lparr>token_dictionary = JObj []\<rparr>, NativeVault \<lparr>cred_blob = None, blob_limit = 2560\<rparr>)
   \<and> has_credentials \<lparr>token_dictionary = JObj []\<rparr> = Inr False)
   \<and> (fst (snd (save \<lparr>token_type = py ''Bearer'', access_token = [0xD83D, 0xDE00],
               refresh_token = py ''R'', expiry_time = PyStr (py ''2025-01-01'')\<rparr>
            empty_store (SecretService \<lparr>reachable = True, locked = False, item = None\<rparr>)))
     = \<lparr>token_dictionary = JObj [(py ''token-type'', JStr (py ''Bearer'')),
           (py ''access-token'', JStr [0xD83D, 0xDE00]),
           (py ''refresh-token'', JStr (py ''R'')),
           (py ''expiry-time'', JStr (py ''2025-01-01''))]\<rparr>
   \<and> SecretStore_init
        (snd (snd (save \<lparr>token_type = py ''Bearer'', access_token = [0xD83D, 0xDE00],
               refresh_token = py ''R'', expiry_time = PyStr (py ''2025-01-01'')\<rparr>
            empty_store (SecretService \<lparr>reachable = True, locked = False, item = None\<rparr>))))
     = Inr (\<lparr>token_dictionary = JObj [(py ''token-type'', JStr (py ''Bearer'')),
           (py ''access-token'', JStr [0x1F600]),
           (py ''refresh-token'', JStr (py ''R'')),
           (py ''expiry-time'', JStr (py ''2025-01-01''))]\<rparr>,
         snd (snd (save \<lparr>token_type = py ''Bearer'', access_token = [0xD83D, 0xDE00],
               refresh_token = py ''R'', expiry_time = PyStr (py ''2025-01-01'')\<rparr>
            empty_store (SecretService \<lparr>reachable = True, locked = False, item = None\<rparr>)))))
   \<and> save \<lparr>token_type = py ''Bearer'', access_token = py ''A'',
         refresh_token = py ''R'', expiry_time = PyStr (py ''2025-01-01'')\<rparr>
       empty_store (SecretService \<lparr>reachable = False, locked = False, item = None\<rparr>)
     = (Raised GLibError,
        \<lparr>token_dictionary = bundle_of \<lparr>token_type = py ''Bearer'', access_token = py ''A'',
           refresh_token = py ''R'', expiry_time = PyStr (py ''2025-01-01'')\<rparr>\<rparr>,
        SecretService \<lparr>reachable = False, locked = False, item = None\<rparr>)"
  by (rule conjI [OF vault_refuses_long_token
        conjI [OF surrogate_pair_is_joined save_raises_when_unreachable]])

text \<open>
  C1, amended. Take a session whose three tokens, and the text \<open>str()\<close> gives for
  its expiry time, are strings of code points in which no high surrogate is
  immediately followed by a low surrogate, and a backend that takes the write (the
  vault: the UTF-16LE blob is within its limit; the secret service: it answers). Then
  \<open>save()\<close> returns with the four-key bundle in memory, a fresh store constructed
  against the backend as \<open>save()\<close> left it holds the same bundle,
  \<open>has_credentials()\<close> is true of it and \<open>get()\<close> returns the three saved tokens.
  And whenever the vault does not take the write, \<open>save()\<close> still returns, with the
  bundle in memory and the vault exactly as it was.
\<close>

theorem save_then_fresh_store:
  "(well_formed (token_type sess) \<and> well_formed (access_token sess) \<and>
    well_formed (refresh_token sess) \<and> well_formed (py_str (expiry_time sess)) \<and>
    takes_write b (json_dumps (bundle_of sess)) \<longrightarrow>
      (\<exists>b' b''.
           save sess self b = (Returned, \<lparr>token_dictionary = bundle_of sess\<rparr>, b')
         \<and> SecretStore_init b' = Inr (\<lparr>token_dictionary = bundle_of sess\<rparr>, b'')
         \<and> has_credentials \<lparr>token_dictionary = bundle_of sess\<rparr> = Inr True
         \<and> get \<lparr>token_dictionary = bundle_of sess\<rparr> =
             Inr (JStr (token_type sess), JStr (access_token sess), JStr (refresh_token sess))))
   \<and> (\<not> takes_write (NativeVault v) (json_dumps (bundle_of sess)) \<longrightarrow>
        save sess self (NativeVault v)
        = (Returned, \<lparr>token_dictionary = bundle_of sess\<rparr>, NativeVault v))"
  using round_trip_when_written [of sess b self] save_when_refused [of v sess self]
  by blast

text \<open>
  The session of the specification's example, saved to an empty vault and read back;
  and a session with an access token of 1300 characters, which the vault refuses.
\<close>

theorem save_then_fresh_store_witness:
  "takes_write (NativeVault \<lparr>cred_blob = None, blob_limit = 2560\<rparr>)
     (json_dumps (bundle_of \<lparr>token_type = py ''Bearer'', access_token = py ''A'',
        refresh_token = py ''R'', expiry_time = PyStr (py ''2025-01-01'')\<rparr>))
   \<and> (\<exists>b' b''.
         save \<lparr>token_type = py ''Bearer'', access_token = py ''A'',
               refresh_token = py ''R'', expiry_time = PyStr (py ''2025-01-01'')\<rparr>
           empty_store (NativeVault \<lparr>cred_blob = None, blob_limit = 2560\<rparr>)
           = (Returned,
              \<lparr>token_dictionary = bundle_of \<lparr>token_type = py ''Bearer'', access_token = py ''A'',
                 refresh_token = py ''R'', expiry_time = PyStr (py ''2025-01-01'')\<rparr>\<rparr>, b')
       \<and> SecretStore_init b'
           = Inr (\<lparr>token_dictionary = bundle_of \<lparr>token_type = py ''Bearer'', access_token = py ''A'',
                 refresh_token = py ''R'', expiry_time = PyStr (py ''2025-01-01'')\<rparr>\<rparr>, b''))
   \<and> \<not> takes_write (NativeVault \<lparr>cred_blob = None, blob_limit = 2560\<rparr>)
     (json_dumps (bundle_of \<lparr>token_type = py ''Bearer'', access_token = replicate 1300 97,
        refresh_token = py ''R'', expiry_time = PyStr (py ''2025-01-01'')\<rparr>))
   \<and> save \<lparr>token_type = py ''Bearer'', access_token = replicate 1300 97,
             refresh_token = py ''R'', expiry_time = PyStr (py ''2025-01-01'')\<rparr>
         empty_store (NativeVault \<lparr>cred_blob = None, blob_limit = 2560\<rparr>)
       = (Returned,
          \<lparr>token_dictionary = bundle_of \<lparr>token_type = py ''Bearer'',
             access_token = replicate 1300 97, refresh_token = py ''R'',
             expiry_time = PyStr (py ''2025-01-01'')\<rparr>\<rparr>,
          NativeVault \<lparr>cred_blob = None, blob_limit = 2560\<rparr>)"
proof -
  let ?sess = "\<lparr>token_type = py ''Bearer'', access_token = py ''A'',
      refresh_token = py ''R'', expiry_time = PyStr (py ''2025-01-01'')\<rparr>"
  let ?long = "\<lparr>token_type = py ''Bearer'', access_token = replicate 1300 97,
      refresh_token = py ''R'', expiry_time = PyStr (py ''2025-01-01'')\<rparr>"
  let ?v = "\<lparr>cred_blob = None, blob_limit = 2560\<rparr>"
  have wf: "well_formed (token_type ?sess) \<and> well_formed (access_token ?sess) \<and>
    well_formed (refresh_token ?sess) \<and> well_formed (py_str (expiry_time ?sess))"
    by (simp add: well_formed_def valid_str_def py_def is_high_surrogate_def)
  have tw: "takes_write (NativeVault ?v) (json_dumps (bundle_of ?sess))"
    by (rule takes_write_vault) (simp add: length_spec_example)
  have "1300 \<le> length (json_dumps (bundle_of ?long))"
    using length_dumps_bundle [of ?long] by simp
  then have "blob_limit ?v < 2 * length (json_dumps (bundle_of ?long))" by simp
  then have ntw: "\<not> takes_write (NativeVault ?v) (json_dumps (bundle_of ?long))"
    by (rule not_takes_write_vault)
  have written: "\<exists>b' b''.
         save ?sess empty_store (NativeVault ?v)
           = (Returned, \<lparr>token_dictionary = bundle_of ?sess\<rparr>, b')
       \<and> SecretStore_init b' = Inr (\<lparr>token_dictionary = bundle_of ?sess\<rparr>, b'')"
    using save_then_fresh_store [where sess = ?sess and b = "NativeVault ?v"
        and self = empty_store and v = ?v, THEN conjunct1] wf tw
    by blast
  have refused: "save ?long empty_store (NativeVault ?v)
       = (Returned, \<lparr>token_dictionary = bundle_of ?long\<rparr>, NativeVault ?v)"
    using save_then_fresh_store [where sess = ?long and b = "NativeVault ?v"
        and self = empty_store and v = ?v, THEN conjunct2] ntw
    by blast
  from tw written ntw refused show ?thesis by blast
qed

text \<open>
  C2. In the secret-service variant the constructor does raise: with the service
  unreachable, the calls before the \<open>try\<close> of \<open>_init_linux\<close> raise \<open>GLib.Error\<close> and
  nothing catches it. The lemmas after the theorem record the rest of the picture: the
  native-vault variant never raises, and the secret-service variant swallows a
  malformed payload and raises exactly when the service is unreachable.
\<close>

theorem constructor_raises_when_lookup_fails:
  "SecretStore_init (SecretService \<lparr>reachable = False, locked = False, item = None\<rparr>)
     = Inl GLibError"
  by (simp add: SecretStore_init_def init_linux_def ensure_unlocked_def then_do_def)

lemma constructor_native_vault_never_raises:
  "SecretStore_init (NativeVault v) = Inr (init_windows v, NativeVault v)"
  by (simp add: SecretStore_init_def)

lemma constructor_secret_service:
  "reachable k \<Longrightarrow> \<exists>s k'. SecretStore_init (SecretService k) = Inr (s, SecretService k')"
  "\<not> reachable k \<Longrightarrow> SecretStore_init (SecretService k) = Inl GLibError"
  by (simp_all add: SecretStore_init_def init_linux_def ensure_unlocked_def
      password_lookup_sync_def then_do_def)

lemma constructor_swallows_malformed_json:
  "SecretStore_init (SecretService \<lparr>reachable = True, locked = False, item = Some (py ''{oops'')\<rparr>)
     = Inr (empty_store, SecretService \<lparr>reachable = True, locked = False, item = Some (py ''{oops'')\<rparr>)"
  by (simp add: SecretStore_init_def init_linux_def ensure_unlocked_def password_lookup_sync_def
      then_do_def load_password_def json_loads_def py_def skip_ws_def is_ws_def)

lemma constructor_resets_on_high_byte:
  "SecretStore_init (NativeVault \<lparr>cred_blob = Some [0x22, 0x00, 0xE9, 0x00, 0x22, 0x00],
       blob_limit = 2560\<rparr>)
     = Inr (empty_store, NativeVault \<lparr>cred_blob = Some [0x22, 0x00, 0xE9, 0x00, 0x22, 0x00],
       blob_limit = 2560\<rparr>)"
  by (simp add: SecretStore_init_def init_windows_def windows_read_credential_def py_bytes_def
      c_byte_def then_do_def)






text \<open>
  C6. The payload \<open>save()\<close> hands to the backend is the text of a JSON object with
  exactly the four members \<open>token-type\<close>, \<open>access-token\<close>, \<open>refresh-token\<close> and
  \<open>expiry-time\<close>, in that order, each value a JSON string; it is pure ASCII, and for
  well-formed fields \<open>json.loads\<close> reads it as that four-key dictionary of strings.
  The secret service stores this text; the vault stores its UTF-16LE encoding, which
  decodes to the same text.
\<close>

theorem persisted_payload_format:
  "json_dumps (bundle_of sess) =
     py ''{\"token-type\": '' @ encode_basestring_ascii (token_type sess) @
     py '', \"access-token\": '' @ encode_basestring_ascii (access_token sess) @
     py '', \"refresh-token\": '' @ encode_basestring_ascii (refresh_token sess) @
     py '', \"expiry-time\": '' @ encode_basestring_ascii (py_str (expiry_time sess)) @ py ''}''
   \<and> ascii (json_dumps (bundle_of sess))
   \<and> (well_formed (token_type sess) \<and> well_formed (access_token sess) \<and>
       well_formed (refresh_token sess) \<and> well_formed (py_str (expiry_time sess)) \<longrightarrow>
       json_loads (json_dumps (bundle_of sess)) =
         Inr (JObj [(py ''token-type'', JStr (token_type sess)),
                    (py ''access-token'', JStr (access_token sess)),
                    (py ''refresh-token'', JStr (refresh_token sess)),
                    (py ''expiry-time'', JStr (py_str (expiry_time sess)))]))
   \<and> (reachable k \<longrightarrow>
       save sess self (SecretService k) =
         (Returned, \<lparr>token_dictionary = bundle_of sess\<rparr>,
          SecretService (k\<lparr>item := Some (json_dumps (bundle_of sess))\<rparr>)))
   \<and> utf_16_le_encode (json_dumps (bundle_of sess)) =
       Inr (concat (map unit_bytes (json_dumps (bundle_of sess))))
   \<and> utf_16_le_decode (concat (map unit_bytes (json_dumps (bundle_of sess)))) =
       Inr (json_dumps (bundle_of sess))
   \<and> (length (concat (map unit_bytes (json_dumps (bundle_of sess)))) \<le> blob_limit v \<longrightarrow>
       save sess self (NativeVault v) =
         (Returned, \<lparr>token_dictionary = bundle_of sess\<rparr>,
          NativeVault (v\<lparr>cred_blob := Some (concat (map unit_bytes (json_dumps (bundle_of sess))))\<rparr>)))"
proof -
  let ?p = "json_dumps (bundle_of sess)"
  have shape: "?p =
     py ''{\"token-type\": '' @ encode_basestring_ascii (token_type sess) @
     py '', \"access-token\": '' @ encode_basestring_ascii (access_token sess) @
     py '', \"refresh-token\": '' @ encode_basestring_ascii (refresh_token sess) @
     py '', \"expiry-time\": '' @ encode_basestring_ascii (py_str (expiry_time sess)) @ py ''}''"
    by (simp add: bundle_of_def py_def encode_basestring_ascii_def escape_char_def)
  have parsed: "well_formed (token_type sess) \<and> well_formed (access_token sess) \<and>
       well_formed (refresh_token sess) \<and> well_formed (py_str (expiry_time sess)) \<longrightarrow>
       json_loads ?p =
         Inr (JObj [(py ''token-type'', JStr (token_type sess)),
                    (py ''access-token'', JStr (access_token sess)),
                    (py ''refresh-token'', JStr (refresh_token sess)),
                    (py ''expiry-time'', JStr (py_str (expiry_time sess)))])"
    using loads_dumps_session [of sess] by (simp add: bundle_of_def)
  have linux: "reachable k \<longrightarrow>
       save sess self (SecretService k) =
         (Returned, \<lparr>token_dictionary = bundle_of sess\<rparr>, SecretService (k\<lparr>item := Some ?p\<rparr>))"
    by (simp add: save_def password_store_sync_def)
  have enc: "utf_16_le_encode ?p = Inr (concat (map unit_bytes ?p))"
    by (rule utf_16_le_encode_ascii [OF dumps_bundle_ascii])
  have dec: "utf_16_le_decode (concat (map unit_bytes ?p)) = Inr ?p"
    by (rule utf_16_le_decode_ascii [OF dumps_bundle_ascii])
  have win: "length (concat (map unit_bytes ?p)) \<le> blob_limit v \<longrightarrow>
       save sess self (NativeVault v) =
         (Returned, \<lparr>token_dictionary = bundle_of sess\<rparr>,
          NativeVault (v\<lparr>cred_blob := Some (concat (map unit_bytes ?p))\<rparr>))"
    by (simp add: save_def windows_write_credential_def enc then_do_def)
  from shape dumps_bundle_ascii parsed linux enc dec win show ?thesis by blast
qed

text \<open>The payload of a session whose expiry time is a datetime object.\<close>

theorem persisted_payload_format_witness:
  "json_dumps (bundle_of \<lparr>token_type = py ''Bearer'', access_token = py ''A'',
      refresh_token = py ''R'', expiry_time = PyObject (py ''2025-01-01 00:00:00'')\<rparr>) =
     py ''{\"token-type\": \"Bearer\", \"access-token\": \"A\", \"refresh-token\": \"R\", \"expiry-time\": \"2025-01-01 00:00:00\"}''
   \<and> json_loads (py ''{\"token-type\": \"Bearer\", \"access-token\": \"A\", \"refresh-token\": \"R\", \"expiry-time\": \"2025-01-01 00:00:00\"}'') =
       Inr (JObj [(py ''token-type'', JStr (py ''Bearer'')), (py ''access-token'', JStr (py ''A'')),
                  (py ''refresh-token'', JStr (py ''R'')),
                  (py ''expiry-time'', JStr (py ''2025-01-01 00:00:00''))])
   \<and> save \<lparr>token_type = py ''Bearer'', access_token = py ''A'',
      refresh_token = py ''R'', expiry_time = PyObject (py ''2025-01-01 00:00:00'')\<rparr> empty_store
        (SecretService \<lparr>reachable = True, locked = False, item = None\<rparr>) =
      (Returned,
       \<lparr>token_dictionary = bundle_of \<lparr>token_type = py ''Bearer'', access_token = py ''A'',
          refresh_token = py ''R'', expiry_time = PyObject (py ''2025-01-01 00:00:00'')\<rparr>\<rparr>,
       SecretService \<lparr>reachable = True, locked = False,
         item = Some (py ''{\"token-type\": \"Bearer\", \"access-token\": \"A\", \"refresh-token\": \"R\", \"expiry-time\": \"2025-01-01 00:00:00\"}'')\<rparr>)
   \<and> save \<lparr>token_type = py ''Bearer'', access_token = py ''A'',
      refresh_token = py ''R'', expiry_time = PyObject (py ''2025-01-01 00:00:00'')\<rparr> empty_store
        (NativeVault \<lparr>cred_blob = None, blob_limit = 2560\<rparr>) =
      (Returned,
       \<lparr>token_dictionary = bundle_of \<lparr>token_type = py ''Bearer'', access_token = py ''A'',
          refresh_token = py ''R'', expiry_time = PyObject (py ''2025-01-01 00:00:00'')\<rparr>\<rparr>,
       NativeVault \<lparr>cred_blob = Some (concat (map unit_bytes
           (py ''{\"token-type\": \"Bearer\", \"access-token\": \"A\", \"refresh-token\": \"R\", \"expiry-time\": \"2025-01-01 00:00:00\"}''))),
         blob_limit = 2560\<rparr>)"
proof -
  let ?sess = "\<lparr>token_type = py ''Bearer'', access_token = py ''A'',
      refresh_token = py ''R'', expiry_time = PyObject (py ''2025-01-01 00:00:00'')\<rparr>"
  have wf: "well_formed (token_type ?sess) \<and> well_formed (access_token ?sess) \<and>
      well_formed (refresh_token ?sess) \<and> well_formed (py_str (expiry_time ?sess))"
    by (simp add: well_formed_def valid_str_def py_def is_high_surrogate_def)
  have payload: "json_dumps (bundle_of ?sess) =
     py ''{\"token-type\": \"Bearer\", \"access-token\": \"A\", \"refresh-token\": \"R\", \"expiry-time\": \"2025-01-01 00:00:00\"}''"
    by (simp add: bundle_of_def py_def encode_basestring_ascii_def escape_char_def)
  have fits: "length (concat (map unit_bytes (json_dumps (bundle_of ?sess)))) \<le>
      blob_limit \<lparr>cred_blob = None, blob_limit = 2560\<rparr>"
    by (simp only: length_utf16_ascii payload) (simp add: py_def)
  have r: "reachable \<lparr>reachable = True, locked = False, item = None\<rparr>"
    by simp
  note format = persisted_payload_format [where sess = ?sess and self = empty_store
        and k = "\<lparr>reachable = True, locked = False, item = None\<rparr>"
        and v = "\<lparr>cred_blob = None, blob_limit = 2560\<rparr>"]
  have parsed: "json_loads (json_dumps (bundle_of ?sess)) =
      Inr (JObj [(py ''token-type'', JStr (py ''Bearer'')), (py ''access-token'', JStr (py ''A'')),
                 (py ''refresh-token'', JStr (py ''R'')),
                 (py ''expiry-time'', JStr (py ''2025-01-01 00:00:00''))])"
    using format [THEN conjunct2, THEN conjunct2, THEN conjunct1, THEN mp, OF wf] by simp
  have kept: "save ?sess empty_store
        (SecretService \<lparr>reachable = True, locked = False, item = None\<rparr>) =
      (Returned, \<lparr>token_dictionary = bundle_of ?sess\<rparr>,
       SecretService \<lparr>reachable = True, locked = False,
         item = Some (json_dumps (bundle_of ?sess))\<rparr>)"
    using format [THEN conjunct2, THEN conjunct2, THEN conjunct2, THEN conjunct1, THEN mp, OF r]
    by simp
  have blob: "save ?sess empty_store
        (NativeVault \<lparr>cred_blob = None, blob_limit = 2560\<rparr>) =
      (Returned, \<lparr>token_dictionary = bundle_of ?sess\<rparr>,
       NativeVault \<lparr>cred_blob = Some (concat (map unit_bytes (json_dumps (bundle_of ?sess)))),
         blob_limit = 2560\<rparr>)"
    using format [THEN conjunct2, THEN conjunct2, THEN conjunct2, THEN conjunct2,
        THEN conjunct2, THEN conjunct2, THEN mp, OF fits]
    by simp
  show ?thesis
    unfolding payload [symmetric]
    using parsed kept blob by simp
qed


section \<open>Properties of the media bridge\<close>

text \<open>
  C7. While the bridge is not initialized, \<open>update_playback_status\<close> and
  \<open>update_metadata\<close> return with every attribute of the bridge, its native objects and
  its thumbnail workers exactly as before, whatever their arguments and whether or not
  the native layer would raise.
\<close>

theorem updates_before_initialize_are_noops:
  assumes "\<not> initialized self"
  shows "update_playback_status is_playing raises self = self
       \<and> update_metadata title artist album thumbnail_path path_exists fault self = self"
  using assms by (simp add: update_playback_status_def update_metadata_def)

theorem updates_before_initialize_are_noops_witness:
  "\<not> initialized (snd (initialize True PlayerFault new_media_controls))
   \<and> update_playback_status True False (snd (initialize True PlayerFault new_media_controls))
       = snd (initialize True PlayerFault new_media_controls)
   \<and> update_metadata (py ''Song'') (py ''Band'') (py ''LP'') (py ''cover.png'') (\<lambda>p. True) Clean
        (snd (initialize True PlayerFault new_media_controls))
       = snd (initialize True PlayerFault new_media_controls)"
proof -
  have h: "\<not> initialized (snd (initialize True PlayerFault new_media_controls))"
    by (simp add: initialize_def new_media_controls_def)
  show ?thesis
    using h updates_before_initialize_are_noops [OF h, of True False "py ''Song''" "py ''Band''"
        "py ''LP''" "py ''cover.png''" "\<lambda>p. True" Clean]
    by simp
qed

text \<open>
  C10. \<open>initialize()\<close> returns \<open>False\<close> when winsdk is absent and \<open>True\<close> (with the
  bridge initialized) when the native setup runs through. When the native setup raises,
  at whichever step, the bridge is left uninitialized and the call returns \<open>None\<close>,
  which is neither \<open>True\<close> nor \<open>False\<close>.
\<close>

theorem initialize_returns_none_on_exception:
  "fst (initialize False fault self) = Some False
   \<and> fst (initialize True NoFault self) = Some True
   \<and> initialized (snd (initialize True NoFault self))
   \<and> (fault \<noteq> NoFault \<longrightarrow>
        fst (initialize True fault self) = None
        \<and> fst (initialize True fault self) \<noteq> Some False
        \<and> \<not> initialized (snd (initialize True fault self)))"
  by (cases fault) (simp_all add: initialize_def Let_def)

theorem initialize_returns_none_on_exception_witness:
  "ListenerFault \<noteq> NoFault
   \<and> fst (initialize True ListenerFault new_media_controls) = None
   \<and> \<not> initialized (snd (initialize True ListenerFault new_media_controls))"
  using initialize_returns_none_on_exception [of ListenerFault new_media_controls]
  by simp


section \<open>Properties of the notification service\<close>

text \<open>
  C8. With notifications enabled and a notifier present, let \<open>t1\<close> be a non-empty track
  id other than the one shown last. The first \<open>show_now_playing\<close> with \<open>t1\<close> returns
  true and dispatches one display call; the next call with \<open>t1\<close> returns false and
  changes nothing; a following call with any other track id returns true and
  dispatches one more display call.
\<close>

theorem now_playing_deduplicates:
  assumes "enabled self" and "notifier self"
    and "t1 \<noteq> []" and "last_track_id self \<noteq> Some t1" and "t2 \<noteq> Some t1"
    and "r1 = show_now_playing title1 artist1 album1 icon1 (Some t1) ex self"
    and "r2 = show_now_playing title2 artist2 album2 icon2 (Some t1) ex (snd r1)"
    and "r3 = show_now_playing title3 artist3 album3 icon3 t2 ex (snd r2)"
  shows "fst r1 \<and> length (dispatched (snd r1)) = length (dispatched self) + 1
       \<and> \<not> fst r2 \<and> snd r2 = snd r1
       \<and> fst r3 \<and> length (dispatched (snd r3)) = length (dispatched self) + 2"
  using assms by (auto simp add: show_now_playing_def truthy_def Let_def)

theorem now_playing_deduplicates_witness:
  "fst (show_now_playing (py ''Song'') (py ''Band'') [] None (Some (py ''T1'')) (\<lambda>p. False)
          (new_notifications True False))
   \<and> \<not> fst (show_now_playing (py ''Song'') (py ''Band'') [] None (Some (py ''T1'')) (\<lambda>p. False)
          (snd (show_now_playing (py ''Song'') (py ''Band'') [] None (Some (py ''T1'')) (\<lambda>p. False)
             (new_notifications True False))))
   \<and> length (dispatched (snd (show_now_playing (py ''Tune'') (py ''Band'') [] None (Some (py ''T2'')) (\<lambda>p. False)
        (snd (show_now_playing (py ''Song'') (py ''Band'') [] None (Some (py ''T1'')) (\<lambda>p. False)
          (snd (show_now_playing (py ''Song'') (py ''Band'') [] None (Some (py ''T1'')) (\<lambda>p. False)
             (new_notifications True False)))))))) = 2"
  using now_playing_deduplicates [of "new_notifications True False" "py ''T1''" "Some (py ''T2'')"
      _ "py ''Song''" "py ''Band''" "[]" None "\<lambda>p. False"
      _ "py ''Song''" "py ''Band''" "[]" None
      _ "py ''Tune''" "py ''Band''" "[]" None, OF _ _ _ _ _ refl refl refl]
  by (simp add: new_notifications_def py_def show_now_playing_def truthy_def)


section \<open>Properties of the startup registration\<close>

text \<open>
  C9, as stated, fails: when the Run key cannot be opened for writing,
  \<open>set_startup_enabled\<close> returns false and changes nothing, so a value that is present
  stays present after enabling and disabling, and disabling does not return true.
\<close>

theorem startup_disable_counterexample:
  "is_startup_enabled True
     (snd (set_startup_enabled True
        \<lparr>frozen = True, executable = py ''C:/HighTide/HighTide.exe'', main_script = [],
         main_script_exists = False\<rparr> False
        (snd (set_startup_enabled True
           \<lparr>frozen = True, executable = py ''C:/HighTide/HighTide.exe'', main_script = [],
            main_script_exists = False\<rparr> True
           \<lparr>run_access = ReadOnly, run_values = [APP_NAME \<mapsto> py ''old.exe'']\<rparr>))))
   \<and> \<not> fst (set_startup_enabled True
        \<lparr>frozen = True, executable = py ''C:/HighTide/HighTide.exe'', main_script = [],
         main_script_exists = False\<rparr> False
        \<lparr>run_access = ReadOnly, run_values = [APP_NAME \<mapsto> py ''old.exe'']\<rparr>)"
  by (simp add: set_startup_enabled_def is_startup_enabled_def)

text \<open>
  C9, amended. On Windows, for every registry state whose Run key can be opened for
  writing: enabling and then disabling leaves the value absent and
  \<open>is_startup_enabled()\<close> false, whether or not enabling found a command to write;
  the disabling call returns true, and a second disabling call returns true again and
  changes nothing. And for every registry state whose Run key cannot be opened for
  writing, \<open>set_startup_enabled\<close> returns false and changes nothing, whichever way
  it is called.
\<close>

theorem startup_enable_disable:
  assumes "r1 = set_startup_enabled True p True reg"
    and "r2 = set_startup_enabled True p False (snd r1)"
    and "r3 = set_startup_enabled True p False (snd r2)"
  shows "(run_access reg = ReadWrite \<longrightarrow>
            run_values (snd r2) APP_NAME = None
          \<and> \<not> is_startup_enabled True (snd r2)
          \<and> fst r2 \<and> fst r3 \<and> snd r3 = snd r2)
       \<and> (run_access reg \<noteq> ReadWrite \<longrightarrow>
            set_startup_enabled IS_WINDOWS p enable reg = (False, reg))"
  using assms
  by (auto simp add: set_startup_enabled_def is_startup_enabled_def split: option.splits)

text \<open>
  An empty Run key that can be written, enabled and disabled; and a read-only Run key
  that holds the value, on which disabling fails and changes nothing.
\<close>

theorem startup_enable_disable_witness:
  "run_access \<lparr>run_access = ReadWrite, run_values = Map.empty\<rparr> = ReadWrite
   \<and> run_values (snd (set_startup_enabled True
        \<lparr>frozen = True, executable = py ''C:/HighTide/HighTide.exe'', main_script = [],
         main_script_exists = False\<rparr> False
        (snd (set_startup_enabled True
           \<lparr>frozen = True, executable = py ''C:/HighTide/HighTide.exe'', main_script = [],
            main_script_exists = False\<rparr> True
           \<lparr>run_access = ReadWrite, run_values = Map.empty\<rparr>)))) APP_NAME = None
   \<and> fst (set_startup_enabled True
        \<lparr>frozen = True, executable = py ''C:/HighTide/HighTide.exe'', main_script = [],
         main_script_exists = False\<rparr> False
        (snd (set_startup_enabled True
           \<lparr>frozen = True, executable = py ''C:/HighTide/HighTide.exe'', main_script = [],
            main_script_exists = False\<rparr> True
           \<lparr>run_access = ReadWrite, run_values = Map.empty\<rparr>)))
   \<and> run_access \<lparr>run_access = ReadOnly, run_values = [APP_NAME \<mapsto> py ''old.exe'']\<rparr> \<noteq> ReadWrite
   \<and> set_startup_enabled True
        \<lparr>frozen = True, executable = py ''C:/HighTide/HighTide.exe'', main_script = [],
         main_script_exists = False\<rparr> False
        \<lparr>run_access = ReadOnly, run_values = [APP_NAME \<mapsto> py ''old.exe'']\<rparr>
     = (False, \<lparr>run_access = ReadOnly, run_values = [APP_NAME \<mapsto> py ''old.exe'']\<rparr>)"
proof -
  let ?p = "\<lparr>frozen = True, executable = py ''C:/HighTide/HighTide.exe'', main_script = [],
         main_script_exists = False\<rparr>"
  let ?rw = "\<lparr>run_access = ReadWrite, run_values = Map.empty\<rparr>"
  let ?ro = "\<lparr>run_access = ReadOnly, run_values = [APP_NAME \<mapsto> py ''old.exe'']\<rparr>"
  have w: "run_access ?rw = ReadWrite" by simp
  have o: "run_access ?ro \<noteq> ReadWrite" by simp
  have writable: "run_values (snd (set_startup_enabled True ?p False
        (snd (set_startup_enabled True ?p True ?rw)))) APP_NAME = None
      \<and> fst (set_startup_enabled True ?p False (snd (set_startup_enabled True ?p True ?rw)))"
    using startup_enable_disable [where reg = ?rw and p = ?p, OF refl refl refl,
        THEN conjunct1, THEN mp, OF w]
    by simp
  have readonly: "set_startup_enabled True ?p False ?ro = (False, ?ro)"
    using startup_enable_disable [where reg = ?ro and p = ?p and IS_WINDOWS = True
        and enable = False, OF refl refl refl, THEN conjunct2, THEN mp, OF o]
    by simp
  from w o writable readonly show ?thesis by simp
qed

end
